theory Spec2Isabelle
  imports Main "HOL-Library.Sublist"
begin

section \<open>Python values used by the patch scripts\<close>

text \<open>
  The repository is a set of one-shot Python scripts. Each reads one Swift source file into
  \<^verbatim>\<open>content\<close>, rewrites it with \<^verbatim>\<open>str.replace\<close>, \<^verbatim>\<open>re.sub\<close> or \<^verbatim>\<open>str.rsplit\<close>, and
  writes it back. A text is a \<^typ>\<open>string\<close> (all sources are ASCII). Exceptions are values of
  \<open>py_error\<close>; \<open>NotModelled\<close> is not a Python exception: it marks a regular expression or a
  replacement template outside the part of \<^verbatim>\<open>re\<close> that is modelled below, or a file
  with bytes beyond ASCII. No pattern or template of the scripts modelled here produces it.
\<close>

datatype py_error = FileNotFoundError | ValueError | BadEscape | InvalidGroupReference | NotModelled

definition bind_res :: "'e + 'a \<Rightarrow> ('a \<Rightarrow> 'e + 'b) \<Rightarrow> 'e + 'b" where
  "bind_res r f = (case r of Inl e \<Rightarrow> Inl e | Inr x \<Rightarrow> f x)"

abbreviation BSL :: char where "BSL \<equiv> CHR 0x5C"
abbreviation NLC :: char where "NLC \<equiv> CHR 0x0A"

subsection \<open>\<^verbatim>\<open>str\<close> methods\<close>

text \<open>\<^verbatim>\<open>p in s\<close>: \<open>p\<close> occurs in \<open>s\<close> as a contiguous substring.\<close>

fun py_in :: "string \<Rightarrow> string \<Rightarrow> bool" where
  "py_in p [] = (p = [])"
| "py_in p (c # s) = (prefix p (c # s) \<or> py_in p s)"

text \<open>
  \<^verbatim>\<open>s.replace(old, new)\<close> without a count: the text is scanned from the left, every
  occurrence of \<open>old\<close> found is replaced and the scan goes on behind it. For an empty
  \<open>old\<close> Python puts \<open>new\<close> before every character and at the end.
\<close>

function replace_scan :: "string \<Rightarrow> string \<Rightarrow> string \<Rightarrow> string" where
  "replace_scan old new [] = []"
| "replace_scan old new (c # s) =
     (if old \<noteq> [] \<and> prefix old (c # s)
      then new @ replace_scan old new (drop (length old) (c # s))
      else c # replace_scan old new s)"
  by pat_completeness auto
termination
  by (relation "measure (\<lambda>(old, new, s). length s)") (auto simp: neq_Nil_conv)

definition str_replace :: "string \<Rightarrow> string \<Rightarrow> string \<Rightarrow> string" where
  "str_replace old new s =
     (if old = [] then new @ concat (map (\<lambda>c. c # new) s) else replace_scan old new s)"

text \<open>\<^verbatim>\<open>sep.join(parts)\<close>; used to state what a replacement leaves in place.\<close>

fun str_join :: "string \<Rightarrow> string list \<Rightarrow> string" where
  "str_join sep [] = []"
| "str_join sep [p] = p"
| "str_join sep (p # q # ps) = p @ sep @ str_join sep (q # ps)"

text \<open>\<^verbatim>\<open>s.strip(chars)\<close>.\<close>

definition str_strip :: "string \<Rightarrow> string \<Rightarrow> string" where
  "str_strip chars s =
     rev (dropWhile (\<lambda>c. c \<in> set chars) (rev (dropWhile (\<lambda>c. c \<in> set chars) s)))"

text \<open>\<^verbatim>\<open>s.rfind(sub)\<close>: the highest index at which \<open>sub\<close> starts, if any.\<close>

fun str_rfind :: "string \<Rightarrow> string \<Rightarrow> nat option" where
  "str_rfind sub [] = (if sub = [] then Some 0 else None)"
| "str_rfind sub (c # s) =
     (case str_rfind sub s of
        Some i \<Rightarrow> Some (Suc i)
      | None \<Rightarrow> if prefix sub (c # s) then Some 0 else None)"

text \<open>\<^verbatim>\<open>s.rsplit(sep, 1)\<close>: one cut at the last occurrence of \<open>sep\<close>; an empty separator
  raises \<^verbatim>\<open>ValueError\<close>.\<close>

definition str_rsplit1 :: "string \<Rightarrow> string \<Rightarrow> py_error + string list" where
  "str_rsplit1 sep s =
     (if sep = [] then Inl ValueError
      else (case str_rfind sep s of
              None \<Rightarrow> Inr [s]
            | Some i \<Rightarrow> Inr [take i s, drop (i + length sep) s]))"

subsection \<open>\<^verbatim>\<open>re.sub\<close>\<close>

text \<open>
  The regular expressions of the scripts use literal characters, escaped punctuation,
  \<^verbatim>\<open>\n\<close>, capturing groups that are not nested, the lazy \<^verbatim>\<open>.*?\<close> and \<^verbatim>\<open>.+?\<close>, the dot and
  \<^verbatim>\<open>$\<close>. \<open>parse_re\<close> reads exactly this fragment of the pattern syntax and answers \<open>None\<close>
  on anything else (classes, alternation, greedy or other quantifiers, \<^verbatim>\<open>\s\<close>, ...).
\<close>

datatype atom = Chr char | Dot | DotStarLazy | DotPlusLazy | GOpen | GClose | Eos

definition is_digit :: "char \<Rightarrow> bool" where
  "is_digit c = (c \<in> set ''0123456789'')"

definition is_ascii_letter :: "char \<Rightarrow> bool" where
  "is_ascii_letter c = (c \<in> set ''abcdefghijklmnopqrstuvwxyzABCDEFGHIJKLMNOPQRSTUVWXYZ'')"

definition is_special :: "char \<Rightarrow> bool" where
  "is_special c = (c \<in> set ''.^$*+?{}[]|()'')"

definition cons_opt :: "'a \<Rightarrow> 'a list option \<Rightarrow> 'a list option" where
  "cons_opt x r = map_option ((#) x) r"

fun parse_re :: "string \<Rightarrow> atom list option" where
  "parse_re [] = Some []"
| "parse_re (c # r) =
     (if c = BSL then
        (case r of
           [] \<Rightarrow> None
         | e # r' \<Rightarrow>
             if e = CHR ''n'' then cons_opt (Chr NLC) (parse_re r')
             else if is_digit e \<or> is_ascii_letter e then None
             else cons_opt (Chr e) (parse_re r'))
      else if c = CHR ''.'' then
        (case r of
           q # l # r' \<Rightarrow>
             if q = CHR ''*'' \<and> l = CHR ''?'' then cons_opt DotStarLazy (parse_re r')
             else if q = CHR ''+'' \<and> l = CHR ''?'' then cons_opt DotPlusLazy (parse_re r')
             else cons_opt Dot (parse_re r)
         | _ \<Rightarrow> cons_opt Dot (parse_re r))
      else if c = CHR ''('' then cons_opt GOpen (parse_re r)
      else if c = CHR '')'' then cons_opt GClose (parse_re r)
      else if c = CHR ''$'' then cons_opt Eos (parse_re r)
      else if is_special c then None
      else cons_opt (Chr c) (parse_re r))"

text \<open>Groups must be closed and not nested; \<open>ngroups\<close> is \<^verbatim>\<open>pattern.groups\<close>.\<close>

fun groups_ok :: "bool \<Rightarrow> atom list \<Rightarrow> bool" where
  "groups_ok inside [] = (\<not> inside)"
| "groups_ok inside (GOpen # as) = (\<not> inside \<and> groups_ok True as)"
| "groups_ok inside (GClose # as) = (inside \<and> groups_ok False as)"
| "groups_ok inside (a # as) = groups_ok inside as"

definition ngroups :: "atom list \<Rightarrow> nat" where
  "ngroups as = length (filter (\<lambda>a. a = GOpen) as)"

text \<open>The least number of characters a match consumes.\<close>

fun min_len :: "atom list \<Rightarrow> nat" where
  "min_len [] = 0"
| "min_len (Chr c # as) = Suc (min_len as)"
| "min_len (Dot # as) = Suc (min_len as)"
| "min_len (DotPlusLazy # as) = Suc (min_len as)"
| "min_len (a # as) = min_len as"

text \<open>The dot matches a newline only under \<^verbatim>\<open>re.DOTALL\<close>.\<close>

definition dot_ok :: "bool \<Rightarrow> char \<Rightarrow> bool" where
  "dot_ok dotall x = (dotall \<or> x \<noteq> NLC)"

text \<open>
  \<open>rmatch dotall as s pos opn\<close> matches the atoms \<open>as\<close> at the start of \<open>s\<close>, as the
  backtracking matcher of \<^verbatim>\<open>re\<close> does: a lazy quantifier first tries to go on without
  consuming, and takes one more character only when that fails. \<open>pos\<close> counts the characters
  consumed since the start of the match and \<open>opn\<close> is where the open group started; the
  result is the length of the match and the spans of the groups. \<^verbatim>\<open>$\<close> (without
  \<^verbatim>\<open>re.MULTILINE\<close>) holds at the end of the text and before a newline that ends the text.
\<close>

fun rmatch :: "bool \<Rightarrow> atom list \<Rightarrow> string \<Rightarrow> nat \<Rightarrow> nat \<Rightarrow> (nat \<times> (nat \<times> nat) list) option" where
  "rmatch d [] s pos opn = Some (pos, [])"
| "rmatch d (Chr c # as) s pos opn =
     (case s of [] \<Rightarrow> None | x # xs \<Rightarrow> if x = c then rmatch d as xs (Suc pos) opn else None)"
| "rmatch d (Dot # as) s pos opn =
     (case s of [] \<Rightarrow> None | x # xs \<Rightarrow> if dot_ok d x then rmatch d as xs (Suc pos) opn else None)"
| "rmatch d (GOpen # as) s pos opn = rmatch d as s pos pos"
| "rmatch d (GClose # as) s pos opn =
     (case rmatch d as s pos opn of None \<Rightarrow> None | Some (e, gs) \<Rightarrow> Some (e, (opn, pos) # gs))"
| "rmatch d (Eos # as) s pos opn =
     (if s = [] \<or> s = [NLC] then rmatch d as s pos opn else None)"
| "rmatch d (DotStarLazy # as) s pos opn =
     (case rmatch d as s pos opn of
        Some r \<Rightarrow> Some r
      | None \<Rightarrow>
          (case s of
             [] \<Rightarrow> None
           | x # xs \<Rightarrow> if dot_ok d x then rmatch d (DotStarLazy # as) xs (Suc pos) opn else None))"
| "rmatch d (DotPlusLazy # as) s pos opn =
     (case s of
        [] \<Rightarrow> None
      | x # xs \<Rightarrow> if dot_ok d x then rmatch d (DotStarLazy # as) xs (Suc pos) opn else None)"

text \<open>
  Replacement templates, as \<^verbatim>\<open>re\<close> parses them before it searches: \<^verbatim>\<open>\1\<close> ... \<^verbatim>\<open>\9\<close> refer to
  a group and raise when the pattern has fewer groups, \<^verbatim>\<open>\n\<close> and the other known escapes
  stand for their character, a backslash before any other ASCII letter raises, a backslash
  before any other character stays, with that character. \<^verbatim>\<open>\g<...>\<close>, octal escapes and
  two-digit group numbers are not modelled.
\<close>

datatype tpart = TChr char | TGrp nat

definition cons_res :: "'a \<Rightarrow> 'e + 'a list \<Rightarrow> 'e + 'a list" where
  "cons_res x r = (case r of Inl e \<Rightarrow> Inl e | Inr xs \<Rightarrow> Inr (x # xs))"

definition escape_char :: "char \<Rightarrow> char option" where
  "escape_char e =
     (if e = CHR ''a'' then Some (CHR 0x07) else if e = CHR ''b'' then Some (CHR 0x08)
      else if e = CHR ''f'' then Some (CHR 0x0C) else if e = CHR ''n'' then Some NLC
      else if e = CHR ''r'' then Some (CHR 0x0D) else if e = CHR ''t'' then Some (CHR 0x09)
      else if e = CHR ''v'' then Some (CHR 0x0B) else if e = BSL then Some BSL else None)"

fun parse_template :: "nat \<Rightarrow> string \<Rightarrow> py_error + tpart list" where
  "parse_template g [] = Inr []"
| "parse_template g (c # r) =
     (if c \<noteq> BSL then cons_res (TChr c) (parse_template g r)
      else
        (case r of
           [] \<Rightarrow> Inl BadEscape
         | e # r' \<Rightarrow>
             if e = CHR ''g'' \<or> e = CHR ''0'' then Inl NotModelled
             else if is_digit e then
               (if r' \<noteq> [] \<and> is_digit (hd r') then Inl NotModelled
                else if g < of_char e - (48::nat) then Inl InvalidGroupReference
                else cons_res (TGrp (of_char e - 48)) (parse_template g r'))
             else
               (case escape_char e of
                  Some x \<Rightarrow> cons_res (TChr x) (parse_template g r')
                | None \<Rightarrow>
                    if is_ascii_letter e then Inl BadEscape
                    else cons_res (TChr BSL) (cons_res (TChr e) (parse_template g r')))))"

text \<open>The text of a template for one match; a group that took no part counts as empty.\<close>

fun expand :: "tpart list \<Rightarrow> string list \<Rightarrow> string" where
  "expand [] caps = []"
| "expand (TChr c # ps) caps = c # expand ps caps"
| "expand (TGrp n # ps) caps =
     (if n - 1 < length caps then caps ! (n - 1) else []) @ expand ps caps"

definition captures :: "string \<Rightarrow> (nat \<times> nat) list \<Rightarrow> string list" where
  "captures s gs = map (\<lambda>(b, e). take (e - b) (drop b s)) gs"

text \<open>
  The search of \<^verbatim>\<open>re.sub\<close> without a count: at each position the leftmost match is
  replaced and the search goes on behind it; where nothing matches the character is kept.
  \<open>re_sub\<close> admits only patterns whose matches are not empty, so the branch for an empty
  match is never taken from there.
\<close>

function re_sub_scan :: "bool \<Rightarrow> atom list \<Rightarrow> tpart list \<Rightarrow> string \<Rightarrow> string" where
  "re_sub_scan d as tp [] = []"
| "re_sub_scan d as tp (c # t) =
     (case rmatch d as (c # t) 0 0 of
        None \<Rightarrow> c # re_sub_scan d as tp t
      | Some (0, gs) \<Rightarrow> c # re_sub_scan d as tp t
      | Some (Suc n, gs) \<Rightarrow> expand tp (captures (c # t) gs) @ re_sub_scan d as tp (drop n t))"
  by pat_completeness auto
termination
  by (relation "measure (\<lambda>(d, as, tp, s). length s)") auto

text \<open>\<^verbatim>\<open>re.sub(pattern, repl, string, flags=...)\<close>; the last argument says whether
  \<^verbatim>\<open>re.DOTALL\<close> is set. The pattern is compiled first, then the template, then the text
  is searched.\<close>

definition re_sub :: "string \<Rightarrow> string \<Rightarrow> string \<Rightarrow> bool \<Rightarrow> py_error + string" where
  "re_sub pattern repl s dotall =
     (case parse_re pattern of
        None \<Rightarrow> Inl NotModelled
      | Some as \<Rightarrow>
          if groups_ok False as \<and> 0 < min_len as
          then (case parse_template (ngroups as) repl of
                  Inl e \<Rightarrow> Inl e
                | Inr tp \<Rightarrow> Inr (re_sub_scan dotall as tp s))
          else Inl NotModelled)"

text \<open>The literal characters of a pattern, in order: for a pattern that is one literal
  (in a group or not) this is the text it matches.\<close>

definition pattern_text :: "string \<Rightarrow> string" where
  "pattern_text pattern =
     (case parse_re pattern of
        None \<Rightarrow> []
      | Some as \<Rightarrow> concat (map (\<lambda>a. case a of Chr c \<Rightarrow> [c] | _ \<Rightarrow> []) as))"

subsection \<open>Files and standard output\<close>

text \<open>
  The world a script runs in: the bytes of the files by path, the line separator of the
  platform (\<^verbatim>\<open>os.linesep\<close>), the log of the writes performed (path and text handed to
  \<^verbatim>\<open>f.write\<close>, oldest first) and the lines printed.

  The scripts open their files in text mode with the default \<^verbatim>\<open>newline=None\<close>. Reading a
  missing file raises; reading decodes the bytes and turns every \<^verbatim>\<open>\r\n\<close> and every other
  \<^verbatim>\<open>\r\<close> into \<^verbatim>\<open>\n\<close>. How bytes beyond ASCII decode depends on the encoding of the locale
  and is not modelled: such a file reads as \<open>NotModelled\<close>. Opening with mode \<^verbatim>\<open>'w'\<close> and
  writing replaces the content of the file by the text, each \<^verbatim>\<open>\n\<close> written as the line
  separator.
\<close>

record world =
  files :: "string \<rightharpoonup> string"
  linesep :: string
  writes :: "(string \<times> string) list"
  stdout :: "string list"

abbreviation CRC :: char where "CRC \<equiv> CHR 0x0D"

definition is_ascii :: "char \<Rightarrow> bool" where
  "is_ascii c = (of_char c < (128::nat))"

fun universal_newlines :: "string \<Rightarrow> string" where
  "universal_newlines [] = []"
| "universal_newlines (c # r) =
     (if c = CRC then
        (case r of
           [] \<Rightarrow> [NLC]
         | d # r' \<Rightarrow>
             if d = NLC then NLC # universal_newlines r' else NLC # universal_newlines r)
      else c # universal_newlines r)"

definition write_newlines :: "string \<Rightarrow> string \<Rightarrow> string" where
  "write_newlines sep s = concat (map (\<lambda>c. if c = NLC then sep else [c]) s)"

definition read_file :: "string \<Rightarrow> world \<Rightarrow> py_error + string" where
  "read_file path w =
     (case files w path of
        None \<Rightarrow> Inl FileNotFoundError
      | Some bytes \<Rightarrow>
          if list_all is_ascii bytes then Inr (universal_newlines bytes) else Inl NotModelled)"

definition write_file :: "string \<Rightarrow> string \<Rightarrow> world \<Rightarrow> world" where
  "write_file path s w =
     w\<lparr>files := (files w)(path \<mapsto> write_newlines (linesep w) s),
       writes := writes w @ [(path, s)]\<rparr>"

definition py_print :: "string \<Rightarrow> world \<Rightarrow> world" where
  "py_print line w = w\<lparr>stdout := stdout w @ [line]\<rparr>"

definition py_prints :: "string list \<Rightarrow> world \<Rightarrow> world" where
  "py_prints ls w = w\<lparr>stdout := stdout w @ ls\<rparr>"

section \<open>The scripts\<close>

text \<open>
  Every script is modelled twice: \<open>_transform\<close> is what it does to \<^verbatim>\<open>content\<close> between
  reading and writing, and the constant named after the script is the whole run on a world.
\<close>

subsection \<open>\<^verbatim>\<open>fix_diane_client.py\<close>\<close>

definition fix_diane_client_path :: string where
  \<open>fix_diane_client_path =
     ''Diane/Diane/Services/DianeClient.swift''\<close>

definition fix_diane_client_add_func :: string where
  \<open>fix_diane_client_add_func =
     ''\<newline>'' @
     ''    func addAgent(agent: AgentConfig) async throws {\<newline>'' @
     ''        try await requestWithBody(endpoint: "/agents", method: "POST", body: agent)\<newline>'' @
     ''    }\<newline>''\<close>

definition fix_diane_client_pattern :: string where
  \<open>fix_diane_client_pattern =
     ''(    // MARK: - Agents'' @ [BSL] @ ''n)''\<close>

definition fix_diane_client_transform :: "string \<Rightarrow> py_error + string" where
  "fix_diane_client_transform content =
     re_sub fix_diane_client_pattern ([BSL] @ ''1'' @ fix_diane_client_add_func) content False"

definition fix_diane_client :: "world \<Rightarrow> py_error + world" where
  "fix_diane_client w =
     bind_res (read_file fix_diane_client_path w) (\<lambda>content.
     bind_res (fix_diane_client_transform content) (\<lambda>content.
     Inr (write_file fix_diane_client_path content w)))"

subsection \<open>\<^verbatim>\<open>fix_diane_client2.py\<close>\<close>

definition fix_diane_client2_path :: string where
  \<open>fix_diane_client2_path =
     ''Diane/Diane/Services/DianeClient.swift''\<close>

definition fix_diane_client2_add_func :: string where
  \<open>fix_diane_client2_add_func =
     ''\<newline>'' @
     ''    func addAgent(agent: AgentConfig) async throws {\<newline>'' @
     ''        try await requestWithBody(endpoint: "/agents", method: "POST", body: agent)\<newline>'' @
     ''    }\<newline>''\<close>

definition fix_diane_client2_signature :: string where
  \<open>fix_diane_client2_signature =
     ''func addAgent(agent: AgentConfig)''\<close>

definition fix_diane_client2_pattern :: string where
  \<open>fix_diane_client2_pattern =
     ''(    // MARK: - Gallery'' @ [BSL] @ ''n)''\<close>

definition fix_diane_client2_transform :: "string \<Rightarrow> py_error + string" where
  "fix_diane_client2_transform content =
     (if \<not> py_in fix_diane_client2_signature content
      then re_sub fix_diane_client2_pattern
             (fix_diane_client2_add_func @ [BSL] @ ''n'' @ [BSL] @ ''1'') content False
      else Inr content)"

definition fix_diane_client2 :: "world \<Rightarrow> py_error + world" where
  "fix_diane_client2 w =
     bind_res (read_file fix_diane_client2_path w) (\<lambda>content.
     bind_res (fix_diane_client2_transform content) (\<lambda>content.
     Inr (write_file fix_diane_client2_path content w)))"

subsection \<open>\<^verbatim>\<open>fix_diane_client3.py\<close>\<close>

definition fix_diane_client3_path :: string where
  \<open>fix_diane_client3_path =
     ''Diane/Diane/Services/DianeClient.swift''\<close>

definition fix_diane_client3_add_func :: string where
  \<open>fix_diane_client3_add_func =
     ''\<newline>'' @
     ''    func addAgent(agent: AgentConfig) async throws {\<newline>'' @
     ''        try await requestWithBody(endpoint: "/agents", method: "POST", body: agent)\<newline>'' @
     ''    }\<newline>'' @
     ''}\<newline>''\<close>

definition fix_diane_client3_transform :: "string \<Rightarrow> py_error + string" where
  "fix_diane_client3_transform content =
     bind_res (str_rsplit1 ''}'' content) (\<lambda>parts.
     Inr (parts ! 0 @ fix_diane_client3_add_func))"

definition fix_diane_client3 :: "world \<Rightarrow> py_error + world" where
  "fix_diane_client3 w =
     bind_res (read_file fix_diane_client3_path w) (\<lambda>content.
     bind_res (fix_diane_client3_transform content) (\<lambda>content.
     Inr (write_file fix_diane_client3_path content w)))"

subsection \<open>\<^verbatim>\<open>fix_diane_client4.py\<close>\<close>

definition fix_diane_client4_path :: string where
  \<open>fix_diane_client4_path =
     ''Diane/Diane/Services/DianeClient.swift''\<close>

definition fix_diane_client4_add_func :: string where
  \<open>fix_diane_client4_add_func =
     ''\<newline>'' @
     ''    func addAgent(agent: AgentConfig) async throws {\<newline>'' @
     ''        let args = ["agent", "add", agent.name, agent.url, agent.description ?? ""]\<newline>'' @
     ''        _ = try await processRequest(args: args)\<newline>'' @
     ''    }\<newline>''\<close>

definition fix_diane_client4_pattern :: string where
  \<open>fix_diane_client4_pattern =
     ''(    func addAgent'' @ [BSL] @ ''(agent: AgentConfig'' @ [BSL] @ '') async throws '' @ [BSL] @ ''{'' @ [BSL] @ ''n        try await requestWithBody'' @ [BSL] @ ''(endpoint: "/agents", method: "POST", body: agent'' @ [BSL] @ '')'' @ [BSL] @ ''n    '' @ [BSL] @ ''})''\<close>

definition fix_diane_client4_transform :: "string \<Rightarrow> py_error + string" where
  "fix_diane_client4_transform content =
     re_sub fix_diane_client4_pattern (str_strip ''\<newline>'' fix_diane_client4_add_func)
       content False"

definition fix_diane_client4 :: "world \<Rightarrow> py_error + world" where
  "fix_diane_client4 w =
     bind_res (read_file fix_diane_client4_path w) (\<lambda>content.
     bind_res (fix_diane_client4_transform content) (\<lambda>content.
     Inr (write_file fix_diane_client4_path content w)))"

subsection \<open>\<^verbatim>\<open>fix_diane_client9.py\<close>\<close>

definition fix_diane_client9_path :: string where
  \<open>fix_diane_client9_path =
     ''Diane/Diane/Services/DianeClient.swift''\<close>

definition fix_diane_client9_cleanup_pattern :: string where
  \<open>fix_diane_client9_cleanup_pattern =
     ''(    func addAgent'' @ [BSL] @ ''(agent: AgentConfig'' @ [BSL] @ '') async throws '' @ [BSL] @ ''{'' @ [BSL] @ ''n.*?'' @ [BSL] @ ''n    '' @ [BSL] @ ''}'' @ [BSL] @ ''n)'' @ [BSL] @ ''}'' @ [BSL] @ ''n$''\<close>

definition fix_diane_client9_add_func :: string where
  \<open>fix_diane_client9_add_func =
     ''\<newline>'' @
     ''    func addAgent(agent: AgentConfig) async throws {\<newline>'' @
     ''        // Local CLI only supports basic add right now: name url [description]\<newline>'' @
     ''        var args = ["agent", "add", agent.name, agent.url]\<newline>'' @
     ''        if let desc = agent.description, !desc.isEmpty {\<newline>'' @
     ''            args.append(desc)\<newline>'' @
     ''        }\<newline>'' @
     ''        _ = try await processRequest(args: args)\<newline>'' @
     ''    }\<newline>''\<close>

definition fix_diane_client9_signature :: string where
  \<open>fix_diane_client9_signature =
     ''func addAgent(agent: AgentConfig)''\<close>

definition fix_diane_client9_pattern :: string where
  \<open>fix_diane_client9_pattern =
     ''(    // MARK: - Gallery'' @ [BSL] @ ''n)''\<close>

text \<open>The first statement of the script: the substitution with \<^verbatim>\<open>flags=re.DOTALL\<close>
  that is meant to remove an \<^verbatim>\<open>addAgent\<close> appended after the class.\<close>

definition fix_diane_client9_cleanup :: "string \<Rightarrow> py_error + string" where
  "fix_diane_client9_cleanup content = re_sub fix_diane_client9_cleanup_pattern ''}'' content True"

text \<open>The second statement: the insertion guarded by the signature test.\<close>

definition fix_diane_client9_inject :: "string \<Rightarrow> py_error + string" where
  "fix_diane_client9_inject content =
     (if \<not> py_in fix_diane_client9_signature content
      then re_sub fix_diane_client9_pattern
             (fix_diane_client9_add_func @ [BSL] @ ''n'' @ [BSL] @ ''1'') content False
      else Inr content)"

definition fix_diane_client9_transform :: "string \<Rightarrow> py_error + string" where
  "fix_diane_client9_transform content =
     bind_res (fix_diane_client9_cleanup content) fix_diane_client9_inject"

definition fix_diane_client9 :: "world \<Rightarrow> py_error + world" where
  "fix_diane_client9 w =
     bind_res (read_file fix_diane_client9_path w) (\<lambda>content.
     bind_res (fix_diane_client9_transform content) (\<lambda>content.
     Inr (write_file fix_diane_client9_path content w)))"

subsection \<open>\<^verbatim>\<open>fix_diane_client10.py\<close>\<close>

definition fix_diane_client10_path :: string where
  \<open>fix_diane_client10_path =
     ''Diane/Diane/Services/DianeClient.swift''\<close>

definition fix_diane_client10_add_func :: string where
  \<open>fix_diane_client10_add_func =
     ''\<newline>'' @
     ''    func addAgent(agent: AgentConfig) async throws {\<newline>'' @
     ''        var args = ["agent", "add", agent.name, agent.url]\<newline>'' @
     ''        if let desc = agent.description, !desc.isEmpty {\<newline>'' @
     ''            args.append(desc)\<newline>'' @
     ''        }\<newline>'' @
     ''        _ = try await processRequest(args: args)\<newline>'' @
     ''    }\<newline>''\<close>

definition fix_diane_client10_signature :: string where
  \<open>fix_diane_client10_signature =
     ''func addAgent(agent: AgentConfig)''\<close>

definition fix_diane_client10_marker :: string where
  \<open>fix_diane_client10_marker =
     ''    // MARK: - Gallery\<newline>''\<close>

definition fix_diane_client10_transform :: "string \<Rightarrow> string" where
  "fix_diane_client10_transform content =
     (if \<not> py_in fix_diane_client10_signature content
      then str_replace fix_diane_client10_marker
             (fix_diane_client10_add_func @ ''\<newline>'' @
     ''    // MARK: - Gallery\<newline>'') content
      else content)"

definition fix_diane_client10 :: "world \<Rightarrow> py_error + world" where
  "fix_diane_client10 w =
     bind_res (read_file fix_diane_client10_path w) (\<lambda>content.
     Inr (write_file fix_diane_client10_path (fix_diane_client10_transform content) w))"

subsection \<open>\<^verbatim>\<open>patch_agents_view.py\<close>\<close>

definition patch_agents_view_path :: string where
  \<open>patch_agents_view_path =
     ''Diane/Diane/Views/AgentsView.swift''\<close>

definition patch_agents_view_old_fields :: string where
  \<open>patch_agents_view_old_fields =
     ''            Form {\<newline>'' @
     ''                TextField("Name (required)", text: $viewModel.newAgentName)\<newline>'' @
     ''                TextField("URL (required)", text: $viewModel.newAgentURL)\<newline>'' @
     ''                TextField("Description", text: $viewModel.newAgentDescription)\<newline>'' @
     ''                TextField("Working Directory", text: $viewModel.newAgentWorkdir)\<newline>'' @
     ''            }''\<close>

definition patch_agents_view_new_fields :: string where
  \<open>patch_agents_view_new_fields =
     ''            Form {\<newline>'' @
     ''                Section("Basic Settings") {\<newline>'' @
     ''                    TextField("Name (required)", text: $viewModel.newAgentName)\<newline>'' @
     ''                    TextField("URL (optional)", text: $viewModel.newAgentURL)\<newline>'' @
     ''                    TextField("Description", text: $viewModel.newAgentDescription)\<newline>'' @
     ''                    TextField("Working Directory", text: $viewModel.newAgentWorkdir)\<newline>'' @
     ''                }\<newline>'' @
     ''                \<newline>'' @
     ''                Section("Workspace Configuration (Emergent Agents)") {\<newline>'' @
     ''                    TextField("Base Image", text: $viewModel.newAgentBaseImage)\<newline>'' @
     ''                    TextField("Repository URL", text: $viewModel.newAgentRepoURL)\<newline>'' @
     ''                    TextField("Repository Branch", text: $viewModel.newAgentRepoBranch)\<newline>'' @
     ''                    TextField("Provider (e.g. firecracker, e2b)", text: $viewModel.newAgentProvider)\<newline>'' @
     ''                    // We simplify the setup commands here since StringArrayEditor requires more setup\<newline>'' @
     ''                    // For now, emergent engine supports them but we don't block the UI update on it\<newline>'' @
     ''                }\<newline>'' @
     ''            }''\<close>

definition patch_agents_view_old_disabled :: string where
  \<open>patch_agents_view_old_disabled =
     ''.disabled(viewModel.newAgentName.isEmpty || viewModel.newAgentURL.isEmpty || viewModel.isInstalling)''\<close>

definition patch_agents_view_new_disabled :: string where
  \<open>patch_agents_view_new_disabled =
     ''.disabled(viewModel.newAgentName.isEmpty || viewModel.isInstalling)''\<close>

text \<open>The two guarded replacements, on the text and the lines printed so far.\<close>

definition patch_agents_view_transform :: "string \<Rightarrow> string \<times> string list" where
  "patch_agents_view_transform content =
     (let (content, out) =
            (if py_in patch_agents_view_old_fields content
             then (str_replace patch_agents_view_old_fields patch_agents_view_new_fields content, [])
             else (content, [''Could not find fields block'']))
      in if py_in patch_agents_view_old_disabled content
         then (str_replace patch_agents_view_old_disabled patch_agents_view_new_disabled content, out)
         else (content, out @ [''Could not find disabled block'']))"

definition patch_agents_view :: "world \<Rightarrow> py_error + world" where
  "patch_agents_view w =
     bind_res (read_file patch_agents_view_path w) (\<lambda>content.
     let (content, out) = patch_agents_view_transform content
     in Inr (py_print ''Python patch AgentsView complete''
               (write_file patch_agents_view_path content (py_prints out w))))"

subsection \<open>\<^verbatim>\<open>patch_agents_view_model.py\<close>\<close>

definition patch_agents_view_model_path :: string where
  \<open>patch_agents_view_model_path =
     ''Diane/Diane/ViewModels/AgentsViewModel.swift''\<close>

definition patch_agents_view_model_old_props :: string where
  \<open>patch_agents_view_model_old_props =
     ''    var showGallerySheet = false\<newline>'' @
     ''    var newAgentURL = ""\<newline>'' @
     ''    var newAgentDescription = ""\<newline>'' @
     ''    var newAgentWorkdir = ""\<newline>'' @
     ''    var newAgentCommand = ""\<newline>'' @
     ''    var newAgentArgs = ""''\<close>

definition patch_agents_view_model_new_props :: string where
  \<open>patch_agents_view_model_new_props =
     ''    var showGallerySheet = false\<newline>'' @
     ''    var newAgentURL = ""\<newline>'' @
     ''    var newAgentDescription = ""\<newline>'' @
     ''    var newAgentWorkdir = ""\<newline>'' @
     ''    var newAgentCommand = ""\<newline>'' @
     ''    var newAgentArgs = ""\<newline>'' @
     ''    \<newline>'' @
     ''    // Workspace Config State\<newline>'' @
     ''    var newAgentBaseImage = ""\<newline>'' @
     ''    var newAgentRepoURL = ""\<newline>'' @
     ''    var newAgentRepoBranch = ""\<newline>'' @
     ''    var newAgentProvider = ""\<newline>'' @
     ''    var newAgentSetupCommands = [String]()''\<close>

definition patch_agents_view_model_old_add :: string where
  \<open>patch_agents_view_model_old_add =
     ''            let agent = AgentConfig(\<newline>'' @
     ''                name: newAgentName,\<newline>'' @
     ''                url: newAgentURL,\<newline>'' @
     ''                type: "acp_agent",\<newline>'' @
     ''                command: newAgentCommand.isEmpty ? nil : newAgentCommand,\<newline>'' @
     ''                args: args.isEmpty ? nil : args,\<newline>'' @
     ''                env: nil,\<newline>'' @
     ''                workdir: newAgentWorkdir.isEmpty ? nil : newAgentWorkdir,\<newline>'' @
     ''                port: nil,\<newline>'' @
     ''                subAgent: nil,\<newline>'' @
     ''                enabled: true,\<newline>'' @
     ''                description: newAgentDescription.isEmpty ? nil : newAgentDescription,\<newline>'' @
     ''                tags: nil\<newline>'' @
     ''            )''\<close>

definition patch_agents_view_model_new_add :: string where
  \<open>patch_agents_view_model_new_add =
     ''            var workspaceConfig: WorkspaceConfig? = nil\<newline>'' @
     ''            if !newAgentBaseImage.isEmpty || !newAgentRepoURL.isEmpty || !newAgentSetupCommands.isEmpty {\<newline>'' @
     ''                workspaceConfig = WorkspaceConfig(\<newline>'' @
     ''                    baseImage: newAgentBaseImage.isEmpty ? nil : newAgentBaseImage,\<newline>'' @
     ''                    repoUrl: newAgentRepoURL.isEmpty ? nil : newAgentRepoURL,\<newline>'' @
     ''                    repoBranch: newAgentRepoBranch.isEmpty ? nil : newAgentRepoBranch,\<newline>'' @
     ''                    provider: newAgentProvider.isEmpty ? nil : newAgentProvider,\<newline>'' @
     ''                    setupCommands: newAgentSetupCommands.isEmpty ? nil : newAgentSetupCommands\<newline>'' @
     ''                )\<newline>'' @
     ''            }\<newline>'' @
     ''\<newline>'' @
     ''            let agent = AgentConfig(\<newline>'' @
     ''                name: newAgentName,\<newline>'' @
     ''                url: newAgentURL.isEmpty ? nil : newAgentURL,\<newline>'' @
     ''                type: "acp_agent",\<newline>'' @
     ''                command: newAgentCommand.isEmpty ? nil : newAgentCommand,\<newline>'' @
     ''                args: args.isEmpty ? nil : args,\<newline>'' @
     ''                env: nil,\<newline>'' @
     ''                workdir: newAgentWorkdir.isEmpty ? nil : newAgentWorkdir,\<newline>'' @
     ''                port: nil,\<newline>'' @
     ''                subAgent: nil,\<newline>'' @
     ''                enabled: true,\<newline>'' @
     ''                description: newAgentDescription.isEmpty ? nil : newAgentDescription,\<newline>'' @
     ''                tags: nil,\<newline>'' @
     ''                workspaceConfig: workspaceConfig\<newline>'' @
     ''            )''\<close>

definition patch_agents_view_model_props :: "string \<Rightarrow> string \<times> string list" where
  "patch_agents_view_model_props content =
     (if py_in patch_agents_view_model_old_props content
      then (str_replace patch_agents_view_model_old_props patch_agents_view_model_new_props content, [])
      else (content, [''Could not find properties block'']))"

definition patch_agents_view_model_transform :: "string \<Rightarrow> string \<times> string list" where
  "patch_agents_view_model_transform content =
     (let (content, out) = patch_agents_view_model_props content
      in if py_in patch_agents_view_model_old_add content
         then (str_replace patch_agents_view_model_old_add patch_agents_view_model_new_add content, out)
         else (content, out @ [''Could not find agent creation block'']))"

definition patch_agents_view_model :: "world \<Rightarrow> py_error + world" where
  "patch_agents_view_model w =
     bind_res (read_file patch_agents_view_model_path w) (\<lambda>content.
     let (content, out) = patch_agents_view_model_transform content
     in Inr (py_print ''Python patch complete''
               (write_file patch_agents_view_model_path content (py_prints out w))))"

subsection \<open>\<^verbatim>\<open>patch_ios_agents_views.py\<close>\<close>






subsection \<open>\<^verbatim>\<open>fix_http_client.py\<close>\<close>

definition fix_http_client_path :: string where
  \<open>fix_http_client_path =
     ''Diane/Diane/Services/DianeHTTPClient.swift''\<close>

definition fix_http_client_test_agent :: string where
  \<open>fix_http_client_test_agent =
     ''\<newline>'' @
     ''    func testAgent(name: String) async throws -> AgentTestResult {\<newline>'' @
     ''        let encodedName = name.addingPercentEncoding(withAllowedCharacters: .urlPathAllowed) ?? name\<newline>'' @
     ''        let data = try await requestWithBody("/agents/'' @ [BSL] @ ''(encodedName)/test", method: "POST", body: nil)\<newline>'' @
     ''        return try decode(AgentTestResult.self, from: data)\<newline>'' @
     ''    }\<newline>''\<close>

definition fix_http_client_test_agent_pattern :: string where
  \<open>fix_http_client_test_agent_pattern =
     ''    func testAgent'' @ [BSL] @ ''(name: String'' @ [BSL] @ '') async throws -> AgentTestResult '' @ [BSL] @ ''{'' @ [BSL] @ ''n        throw DianeHTTPClientError'' @ [BSL] @ ''.readOnlyMode'' @ [BSL] @ ''n    '' @ [BSL] @ ''}''\<close>

definition fix_http_client_toggle_agent :: string where
  \<open>fix_http_client_toggle_agent =
     ''\<newline>'' @
     ''    func toggleAgent(name: String, enabled: Bool) async throws {\<newline>'' @
     ''        let encodedName = name.addingPercentEncoding(withAllowedCharacters: .urlPathAllowed) ?? name\<newline>'' @
     ''        let body = ["enabled": enabled]\<newline>'' @
     ''        let bodyData = try JSONEncoder().encode(body)\<newline>'' @
     ''        _ = try await requestWithBody("/agents/'' @ [BSL] @ ''(encodedName)/toggle", method: "POST", body: bodyData)\<newline>'' @
     ''    }\<newline>''\<close>

definition fix_http_client_toggle_agent_pattern :: string where
  \<open>fix_http_client_toggle_agent_pattern =
     ''    func toggleAgent'' @ [BSL] @ ''(name: String, enabled: Bool'' @ [BSL] @ '') async throws '' @ [BSL] @ ''{'' @ [BSL] @ ''n        throw DianeHTTPClientError'' @ [BSL] @ ''.readOnlyMode'' @ [BSL] @ ''n    '' @ [BSL] @ ''}''\<close>

definition fix_http_client_run_agent :: string where
  \<open>fix_http_client_run_agent =
     ''\<newline>'' @
     ''    func runAgentPrompt(agentName: String, prompt: String, remoteAgentName: String?) async throws -> AgentRunResult {\<newline>'' @
     ''        let encodedName = agentName.addingPercentEncoding(withAllowedCharacters: .urlPathAllowed) ?? agentName\<newline>'' @
     ''        var body: [String: String] = ["prompt": prompt]\<newline>'' @
     ''        if let remoteAgent = remoteAgentName {\<newline>'' @
     ''            body["agent_name"] = remoteAgent\<newline>'' @
     ''        }\<newline>'' @
     ''        let bodyData = try JSONEncoder().encode(body)\<newline>'' @
     ''        let data = try await requestWithBody("/agents/'' @ [BSL] @ ''(encodedName)/run", method: "POST", body: bodyData)\<newline>'' @
     ''        return try decodeGo(AgentRunResult.self, from: data)\<newline>'' @
     ''    }\<newline>''\<close>

definition fix_http_client_run_agent_pattern :: string where
  \<open>fix_http_client_run_agent_pattern =
     ''    func runAgentPrompt'' @ [BSL] @ ''(agentName: String, prompt: String, remoteAgentName: String'' @ [BSL] @ ''?'' @ [BSL] @ '') async throws -> AgentRunResult '' @ [BSL] @ ''{'' @ [BSL] @ ''n        throw DianeHTTPClientError'' @ [BSL] @ ''.readOnlyMode'' @ [BSL] @ ''n    '' @ [BSL] @ ''}''\<close>

definition fix_http_client_remove_agent :: string where
  \<open>fix_http_client_remove_agent =
     ''\<newline>'' @
     ''    func removeAgent(name: String) async throws {\<newline>'' @
     ''        let encodedName = name.addingPercentEncoding(withAllowedCharacters: .urlPathAllowed) ?? name\<newline>'' @
     ''        _ = try await requestWithBody("/agents/'' @ [BSL] @ ''(encodedName)", method: "DELETE")\<newline>'' @
     ''    }\<newline>''\<close>

definition fix_http_client_remove_agent_pattern :: string where
  \<open>fix_http_client_remove_agent_pattern =
     ''    func removeAgent'' @ [BSL] @ ''(name: String'' @ [BSL] @ '') async throws '' @ [BSL] @ ''{'' @ [BSL] @ ''n        throw DianeHTTPClientError'' @ [BSL] @ ''.readOnlyMode'' @ [BSL] @ ''n    '' @ [BSL] @ ''}''\<close>

definition fix_http_client_update_agent :: string where
  \<open>fix_http_client_update_agent =
     ''\<newline>'' @
     ''    func updateAgent(name: String, subAgent: String?, enabled: Bool?, description: String?, workdir: String?) async throws {\<newline>'' @
     ''        let encodedName = name.addingPercentEncoding(withAllowedCharacters: .urlPathAllowed) ?? name\<newline>'' @
     ''        var body: [String: Any] = [:]\<newline>'' @
     ''        if let subAgent = subAgent {\<newline>'' @
     ''            body["sub_agent"] = subAgent\<newline>'' @
     ''        }\<newline>'' @
     ''        if let enabled = enabled {\<newline>'' @
     ''            body["enabled"] = enabled\<newline>'' @
     ''        }\<newline>'' @
     ''        if let description = description {\<newline>'' @
     ''            body["description"] = description\<newline>'' @
     ''        }\<newline>'' @
     ''        if let workdir = workdir {\<newline>'' @
     ''            body["workdir"] = workdir\<newline>'' @
     ''        }\<newline>'' @
     ''        \<newline>'' @
     ''        guard !body.isEmpty else { return }\<newline>'' @
     ''        let bodyData = try JSONSerialization.data(withJSONObject: body)\<newline>'' @
     ''        _ = try await requestWithBody("/agents/'' @ [BSL] @ ''(encodedName)/update", method: "POST", body: bodyData)\<newline>'' @
     ''    }\<newline>''\<close>

definition fix_http_client_update_agent_pattern :: string where
  \<open>fix_http_client_update_agent_pattern =
     ''    func updateAgent'' @ [BSL] @ ''(name: String, subAgent: String'' @ [BSL] @ ''?, enabled: Bool'' @ [BSL] @ ''?, description: String'' @ [BSL] @ ''?, workdir: String'' @ [BSL] @ ''?'' @ [BSL] @ '') async throws '' @ [BSL] @ ''{'' @ [BSL] @ ''n        throw DianeHTTPClientError'' @ [BSL] @ ''.readOnlyMode'' @ [BSL] @ ''n    '' @ [BSL] @ ''}''\<close>

text \<open>The five substitutions, each on the text left by the one before; an exception of
  any of them ends the script before the file is opened for writing.\<close>

definition fix_http_client_transform :: "string \<Rightarrow> py_error + string" where
  "fix_http_client_transform content =
     bind_res (re_sub fix_http_client_test_agent_pattern
                 (str_strip ''\<newline>'' fix_http_client_test_agent) content False) (\<lambda>content.
     bind_res (re_sub fix_http_client_toggle_agent_pattern
                 (str_strip ''\<newline>'' fix_http_client_toggle_agent) content False) (\<lambda>content.
     bind_res (re_sub fix_http_client_run_agent_pattern
                 (str_strip ''\<newline>'' fix_http_client_run_agent) content False) (\<lambda>content.
     bind_res (re_sub fix_http_client_remove_agent_pattern
                 (str_strip ''\<newline>'' fix_http_client_remove_agent) content False) (\<lambda>content.
     re_sub fix_http_client_update_agent_pattern
       (str_strip ''\<newline>'' fix_http_client_update_agent) content False))))"

definition fix_http_client :: "world \<Rightarrow> py_error + world" where
  "fix_http_client w =
     bind_res (read_file fix_http_client_path w) (\<lambda>content.
     bind_res (fix_http_client_transform content) (\<lambda>content.
     Inr (write_file fix_http_client_path content w)))"

section \<open>Facts about the string operations\<close>

lemma py_in_iff: "py_in p s \<longleftrightarrow> (\<exists>a b. s = a @ p @ b)"
proof (induction s)
  case Nil
  then show ?case by auto
next
  case (Cons c s)
  show ?case
  proof
    assume "py_in p (c # s)"
    then consider "prefix p (c # s)" | "py_in p s" by auto
    then show "\<exists>a b. c # s = a @ p @ b"
    proof cases
      case 1
      then obtain b where "c # s = p @ b" by (auto simp: prefix_def)
      then have "c # s = [] @ p @ b" by simp
      then show ?thesis by blast
    next
      case 2
      then obtain a b where "s = a @ p @ b" using Cons.IH by blast
      then have "c # s = (c # a) @ p @ b" by simp
      then show ?thesis by blast
    qed
  next
    assume "\<exists>a b. c # s = a @ p @ b"
    then obtain a b where ab: "c # s = a @ p @ b" by blast
    show "py_in p (c # s)"
    proof (cases a)
      case Nil
      then have "prefix p (c # s)" using ab by (simp add: prefix_def)
      then show ?thesis by simp
    next
      case (Cons x a')
      then have "s = a' @ p @ b" using ab by simp
      then have "py_in p s" using Cons.IH by blast
      then show ?thesis by simp
    qed
  qed
qed

lemma py_in_trans: "py_in a b \<Longrightarrow> py_in b c \<Longrightarrow> py_in a c"
proof -
  assume "py_in a b" "py_in b c"
  then obtain u v w z where "b = u @ a @ v" "c = w @ b @ z" by (auto simp: py_in_iff)
  then have "c = (w @ u) @ a @ (v @ z)" by simp
  then show ?thesis unfolding py_in_iff by blast
qed

lemma py_in_append_left: "py_in p s \<Longrightarrow> py_in p (a @ s)"
  unfolding py_in_iff by (metis append.assoc)

lemma py_in_append_right: "py_in p s \<Longrightarrow> py_in p (s @ b)"
  unfolding py_in_iff by (metis append.assoc)

lemma py_in_self_append: "py_in p (a @ p @ b)"
  unfolding py_in_iff by blast

lemma replace_scan_absent: "\<not> py_in old s \<Longrightarrow> replace_scan old new s = s"
  by (induction s) auto

lemma replace_scan_present:
  "old \<noteq> [] \<Longrightarrow> py_in old s \<Longrightarrow> py_in new (replace_scan old new s)"
proof (induction old new s rule: replace_scan.induct)
  case (1 old new)
  then show ?case by simp
next
  case (2 old new c s)
  show ?case
  proof (cases "prefix old (c # s)")
    case True
    then have "replace_scan old new (c # s) = new @ replace_scan old new (drop (length old) (c # s))"
      using "2.prems"(1) by simp
    then show ?thesis using py_in_self_append[of new "[]"] by simp
  next
    case False
    then have "py_in old s" using "2.prems"(2) by simp
    then have "py_in new (replace_scan old new s)" using "2.IH"(2) False "2.prems"(1) by simp
    then show ?thesis using False by simp
  qed
qed

lemma replace_scan_pieces:
  "old \<noteq> [] \<Longrightarrow>
   \<exists>ps. ps \<noteq> [] \<and> s = str_join old ps \<and> replace_scan old new s = str_join new ps
        \<and> (\<forall>p \<in> set ps. \<not> py_in old p) \<and> (py_in old s \<longleftrightarrow> 2 \<le> length ps)"
proof (induction old new s rule: replace_scan.induct)
  case (1 old new)
  have "[] = str_join old [[]]" "replace_scan old new [] = str_join new [[]]" by simp_all
  moreover have "\<not> py_in old []" using "1.prems" by simp
  ultimately show ?case
    by (intro exI[of _ "[[]]"]) simp
next
  case (2 old new c s)
  show ?case
  proof (cases "prefix old (c # s)")
    case True
    let ?r = "drop (length old) (c # s)"
    from True have cs: "c # s = old @ ?r" by (metis append_eq_conv_conj prefix_def)
    from "2.IH"(1) True "2.prems" obtain ps where ps:
      "ps \<noteq> []" "?r = str_join old ps" "replace_scan old new ?r = str_join new ps"
      "\<forall>p \<in> set ps. \<not> py_in old p" by blast
    from ps(1) obtain q qs where q: "ps = q # qs" by (cases ps) auto
    have a: "c # s = str_join old ([] # ps)" using cs ps(2) q by simp
    have b: "replace_scan old new (c # s) = str_join new ([] # ps)"
      using True "2.prems" ps(3) q by simp
    have c: "\<forall>p \<in> set ([] # ps). \<not> py_in old p" using ps(4) "2.prems" by simp
    have d: "py_in old (c # s)" using True by simp
    show ?thesis
      using a b c d q by (intro exI[of _ "[] # ps"]) simp
  next
    case False
    from "2.IH"(2) False "2.prems" obtain ps where ps:
      "ps \<noteq> []" "s = str_join old ps" "replace_scan old new s = str_join new ps"
      "\<forall>p \<in> set ps. \<not> py_in old p" "py_in old s \<longleftrightarrow> 2 \<le> length ps" by blast
    from ps(1) obtain q qs where q: "ps = q # qs" by (cases ps) auto
    have a: "c # s = str_join old ((c # q) # qs)" using ps(2) q by (cases qs) simp_all
    have b: "replace_scan old new (c # s) = str_join new ((c # q) # qs)"
      using False ps(3) q by (cases qs) simp_all
    have "prefix (c # q) (c # s)" using ps(2) q by (cases qs) simp_all
    then have "\<not> prefix old (c # q)" using False by (meson prefix_order.order_trans)
    then have c: "\<forall>p \<in> set ((c # q) # qs). \<not> py_in old p" using ps(4) q by simp
    have d: "py_in old (c # s) \<longleftrightarrow> 2 \<le> length ((c # q) # qs)" using False ps(5) q by simp
    show ?thesis
      using a b c d by (intro exI[of _ "(c # q) # qs"]) simp
  qed
qed

subsection \<open>\<^verbatim>\<open>re.sub\<close> with a pattern that is one literal\<close>

lemma rmatch_chars:
  "rmatch d (map Chr lit @ rest) s pos opn =
     (if prefix lit s then rmatch d rest (drop (length lit) s) (pos + length lit) opn else None)"
proof (induction lit arbitrary: s pos)
  case Nil
  then show ?case by simp
next
  case (Cons c lit)
  then show ?case by (cases s) auto
qed

lemma rmatch_group_lit:
  "rmatch d (GOpen # map Chr lit @ [GClose]) s 0 0 =
     (if prefix lit s then Some (length lit, [(0, length lit)]) else None)"
  by (simp add: rmatch_chars)

lemma rmatch_plain_lit:
  "rmatch d (map Chr lit) s 0 0 = (if prefix lit s then Some (length lit, []) else None)"
  using rmatch_chars[of d lit "[]" s 0 0] by simp

lemma prefix_take_eq: "prefix lit s \<Longrightarrow> take (length lit) s = lit"
  by (auto simp: prefix_def)

lemma re_sub_scan_group_lit:
  "lit \<noteq> [] \<Longrightarrow>
   re_sub_scan d (GOpen # map Chr lit @ [GClose]) tp s = replace_scan lit (expand tp [lit]) s"
proof (induction lit "expand tp [lit]" s rule: replace_scan.induct)
  case (1 old)
  then show ?case by simp
next
  case (2 old c s)
  obtain n where n: "length old = Suc n" using "2.prems" by (cases old) auto
  show ?case
  proof (cases "prefix old (c # s)")
    case True
    then have "re_sub_scan d (GOpen # map Chr old @ [GClose]) tp (drop n s) =
               replace_scan old (expand tp [old]) (drop (length old) (c # s))"
      using "2.hyps"(1) "2.prems" n by simp
    then show ?thesis
      using True "2.prems" n prefix_take_eq[OF True]
      by (simp add: rmatch_group_lit captures_def del: rmatch.simps)
  next
    case False
    then show ?thesis
      using "2.hyps"(2) "2.prems" by (simp add: rmatch_group_lit del: rmatch.simps)
  qed
qed

lemma re_sub_scan_plain_lit:
  "lit \<noteq> [] \<Longrightarrow> re_sub_scan d (map Chr lit) tp s = replace_scan lit (expand tp []) s"
proof (induction lit "expand tp []" s rule: replace_scan.induct)
  case (1 old)
  then show ?case by simp
next
  case (2 old c s)
  obtain n where n: "length old = Suc n" using "2.prems" by (cases old) auto
  show ?case
  proof (cases "prefix old (c # s)")
    case True
    then have "re_sub_scan d (map Chr old) tp (drop n s) =
               replace_scan old (expand tp []) (drop (length old) (c # s))"
      using "2.hyps"(1) "2.prems" n by simp
    then show ?thesis
      using True "2.prems" n
      by (simp add: rmatch_plain_lit captures_def del: rmatch.simps)
  next
    case False
    then show ?thesis
      using "2.hyps"(2) "2.prems" by (simp add: rmatch_plain_lit del: rmatch.simps)
  qed
qed

lemma expand_map_TChr: "expand (map TChr s @ ps) caps = s @ expand ps caps"
  by (induction s) auto

lemma groups_ok_chars: "groups_ok b (map Chr lit @ as) = groups_ok b as"
  by (induction lit) auto

lemma ngroups_group_lit: "ngroups (GOpen # map Chr lit @ [GClose]) = 1"
  by (induction lit) (auto simp: ngroups_def)

lemma ngroups_plain_lit: "ngroups (map Chr lit) = 0"
  by (induction lit) (auto simp: ngroups_def)

lemma min_len_chars: "min_len (map Chr lit @ as) = length lit + min_len as"
  by (induction lit) auto

lemma min_len_group_lit: "min_len (GOpen # map Chr lit @ [GClose]) = length lit"
  by (simp add: min_len_chars)

lemma min_len_plain_lit: "min_len (map Chr lit) = length lit"
  by (induction lit) auto

lemma re_sub_group_lit:
  assumes "parse_re pattern = Some (GOpen # map Chr lit @ [GClose])" and "lit \<noteq> []"
    and "parse_template 1 repl = Inr tp"
  shows "re_sub pattern repl s d = Inr (replace_scan lit (expand tp [lit]) s)"
  using assms groups_ok_chars[of True lit "[GClose]"]
  by (simp add: re_sub_def ngroups_group_lit min_len_chars re_sub_scan_group_lit)

lemma re_sub_plain_lit:
  assumes "parse_re pattern = Some (map Chr lit)" and "lit \<noteq> []"
    and "parse_template 0 repl = Inr tp"
  shows "re_sub pattern repl s d = Inr (replace_scan lit (expand tp []) s)"
  using assms groups_ok_chars[of False lit "[]"]
  by (simp add: re_sub_def ngroups_plain_lit min_len_plain_lit re_sub_scan_plain_lit)


lemma rmatch_advances:
  "rmatch d as s pos opn = Some (e, gs) \<Longrightarrow> pos + min_len as \<le> e"
proof (induction d as s pos opn arbitrary: e gs rule: rmatch.induct)
  case (1 d s pos opn)
  then show ?case by simp
next
  case (2 d c as s pos opn)
  then show ?case by (cases s) (auto split: if_splits)
next
  case (3 d as s pos opn)
  then show ?case by (cases s) (auto split: if_splits)
next
  case (4 d as s pos opn)
  then show ?case by simp
next
  case (5 d as s pos opn)
  then show ?case by (auto split: option.splits)
next
  case (6 d as s pos opn)
  then show ?case by (auto split: if_splits)
next
  case (7 d as s pos opn)
  show ?case
  proof (cases "rmatch d as s pos opn")
    case (Some r)
    then show ?thesis using "7.prems" "7.IH"(1)[of e gs] by simp
  next
    case None
    then obtain x xs where s: "s = x # xs" and ok: "dot_ok d x"
      and m: "rmatch d (DotStarLazy # as) xs (Suc pos) opn = Some (e, gs)"
      using "7.prems" by (cases s) (auto split: if_splits)
    from "7.IH"(2)[OF None s ok m] show ?thesis by simp
  qed
next
  case (8 d as s pos opn)
  then show ?case by (cases s) (auto split: if_splits)
qed

lemma str_replace_scan: "old \<noteq> [] \<Longrightarrow> str_replace old new s = replace_scan old new s"
  by (simp add: str_replace_def)

lemma prefix_shorter: "prefix p (xs @ ys) \<Longrightarrow> length p \<le> length xs \<Longrightarrow> prefix p xs"
  by (metis prefix_def append_eq_append_conv_if prefix_prefix take_is_prefix)

lemma replace_scan_first:
  assumes "old \<noteq> []" and "\<not> py_in old (a @ butlast old)"
  shows "replace_scan old new (a @ old @ b) = a @ new @ replace_scan old new b"
  using assms
proof (induction a)
  case Nil
  then obtain c r where "old = c # r" by (cases old) auto
  then show ?case by simp
next
  case (Cons x a)
  have len: "length old \<le> length ((x # a) @ butlast old)" using Cons.prems(1) by (cases old) auto
  have np: "\<not> prefix old (x # a @ old @ b)"
  proof
    assume "prefix old (x # a @ old @ b)"
    moreover have "old @ b = butlast old @ last old # b"
      using Cons.prems(1) by (metis append_butlast_last_id append_Cons append_Nil append.assoc)
    ultimately have "prefix old (((x # a) @ butlast old) @ (last old # b))"
      by simp
    then have "prefix old ((x # a) @ butlast old)" using len prefix_shorter by blast
    then show False using Cons.prems(2) by simp
  qed
  have "\<not> py_in old (a @ butlast old)" using Cons.prems(2) by simp
  then show ?case using Cons.IH Cons.prems(1) np by simp
qed

lemma str_rfind_absent: "c \<notin> set s \<Longrightarrow> str_rfind [c] s = None"
  by (induction s) auto

lemma str_rfind_last:
  "c \<notin> set post \<Longrightarrow> str_rfind [c] (pre @ c # post) = Some (length pre)"
  by (induction pre) (auto simp: str_rfind_absent)

lemma parse_template_plain:
  "BSL \<notin> set s \<Longrightarrow> parse_template g s = Inr (map TChr s)"
  by (induction s) (auto simp: cons_res_def)

lemma parse_template_append:
  "BSL \<notin> set s \<Longrightarrow>
   parse_template g (s @ r) =
     (case parse_template g r of Inl e \<Rightarrow> Inl e | Inr ps \<Rightarrow> Inr (map TChr s @ ps))"
  by (induction s) (auto simp: cons_res_def split: sum.splits)

lemma universal_newlines_id: "CRC \<notin> set bytes \<Longrightarrow> universal_newlines bytes = bytes"
  by (induction bytes) auto


section \<open>What each script computes\<close>

lemmas re_chars = cons_opt_def is_digit_def is_ascii_letter_def is_special_def

lemma fix_diane_client_pattern_text:
  \<open>pattern_text fix_diane_client_pattern =
     ''    // MARK: - Agents\<newline>''\<close>
  by code_simp

lemma fix_diane_client_pattern_parse:
  "parse_re fix_diane_client_pattern =
     Some (GOpen # map Chr (pattern_text fix_diane_client_pattern) @ [GClose])"
  by code_simp

lemma fix_diane_client_pattern_nonempty: "pattern_text fix_diane_client_pattern \<noteq> []"
  by code_simp

lemma fix_diane_client_template:
  "parse_template 1 ([BSL] @ ''1'' @ fix_diane_client_add_func) =
     Inr (TGrp 1 # map TChr fix_diane_client_add_func)"
proof -
  have "BSL \<notin> set fix_diane_client_add_func" by code_simp
  then have "parse_template 1 fix_diane_client_add_func = Inr (map TChr fix_diane_client_add_func)"
    by (rule parse_template_plain)
  moreover have "\<not> is_digit (hd fix_diane_client_add_func)" by code_simp
  ultimately show ?thesis by (simp add: is_digit_def cons_res_def)
qed

lemma fix_diane_client_transform_eq:
  "fix_diane_client_transform x =
     Inr (replace_scan (pattern_text fix_diane_client_pattern)
            (pattern_text fix_diane_client_pattern @ fix_diane_client_add_func) x)"
  unfolding fix_diane_client_transform_def
  using re_sub_group_lit[OF fix_diane_client_pattern_parse fix_diane_client_pattern_nonempty
          fix_diane_client_template, of x False]
        expand_map_TChr[of fix_diane_client_add_func "[]"]
  by simp

lemma fix_diane_client2_pattern_text:
  \<open>pattern_text fix_diane_client2_pattern =
     ''    // MARK: - Gallery\<newline>''\<close>
  by code_simp

lemma fix_diane_client2_pattern_parse:
  "parse_re fix_diane_client2_pattern =
     Some (GOpen # map Chr (pattern_text fix_diane_client2_pattern) @ [GClose])"
  by code_simp

lemma fix_diane_client2_pattern_nonempty: "pattern_text fix_diane_client2_pattern \<noteq> []"
  by code_simp

lemma fix_diane_client2_template:
  "parse_template 1 (fix_diane_client2_add_func @ [BSL] @ ''n'' @ [BSL] @ ''1'') =
     Inr (map TChr (fix_diane_client2_add_func @ ''\<newline>'') @ [TGrp 1])"
proof -
  have "BSL \<notin> set fix_diane_client2_add_func" by code_simp
  then show ?thesis
    by (simp add: parse_template_append is_digit_def escape_char_def cons_res_def)
qed

lemma fix_diane_client2_transform_eq:
  "fix_diane_client2_transform x =
     Inr (if \<not> py_in fix_diane_client2_signature x
          then replace_scan (pattern_text fix_diane_client2_pattern)
                 (fix_diane_client2_add_func @ ''\<newline>'' @ pattern_text fix_diane_client2_pattern) x
          else x)"
proof -
  have "expand (map TChr (fix_diane_client2_add_func @ ''\<newline>'') @ [TGrp 1])
          [pattern_text fix_diane_client2_pattern] =
        fix_diane_client2_add_func @ ''\<newline>'' @ pattern_text fix_diane_client2_pattern"
    using expand_map_TChr[of "fix_diane_client2_add_func @ ''\<newline>''" "[TGrp 1]"
            "[pattern_text fix_diane_client2_pattern]"]
    by simp
  then show ?thesis
    unfolding fix_diane_client2_transform_def
    using re_sub_group_lit[OF fix_diane_client2_pattern_parse fix_diane_client2_pattern_nonempty
            fix_diane_client2_template, of x False]
    by simp
qed

lemma fix_diane_client2_signature_in_add_func:
  "py_in fix_diane_client2_signature fix_diane_client2_add_func"
  by code_simp

lemma fix_diane_client9_pattern_text:
  \<open>pattern_text fix_diane_client9_pattern =
     ''    // MARK: - Gallery\<newline>''\<close>
  by code_simp

lemma fix_diane_client9_pattern_parse:
  "parse_re fix_diane_client9_pattern =
     Some (GOpen # map Chr (pattern_text fix_diane_client9_pattern) @ [GClose])"
  by code_simp

lemma fix_diane_client9_pattern_nonempty: "pattern_text fix_diane_client9_pattern \<noteq> []"
  by code_simp

lemma fix_diane_client9_template:
  "parse_template 1 (fix_diane_client9_add_func @ [BSL] @ ''n'' @ [BSL] @ ''1'') =
     Inr (map TChr (fix_diane_client9_add_func @ ''\<newline>'') @ [TGrp 1])"
proof -
  have "BSL \<notin> set fix_diane_client9_add_func" by code_simp
  then show ?thesis
    by (simp add: parse_template_append is_digit_def escape_char_def cons_res_def)
qed

lemma fix_diane_client9_inject_eq:
  "fix_diane_client9_inject x =
     Inr (if \<not> py_in fix_diane_client9_signature x
          then replace_scan (pattern_text fix_diane_client9_pattern)
                 (fix_diane_client9_add_func @ ''\<newline>'' @ pattern_text fix_diane_client9_pattern) x
          else x)"
proof -
  have "expand (map TChr (fix_diane_client9_add_func @ ''\<newline>'') @ [TGrp 1])
          [pattern_text fix_diane_client9_pattern] =
        fix_diane_client9_add_func @ ''\<newline>'' @ pattern_text fix_diane_client9_pattern"
    using expand_map_TChr[of "fix_diane_client9_add_func @ ''\<newline>''" "[TGrp 1]"
            "[pattern_text fix_diane_client9_pattern]"]
    by simp
  then show ?thesis
    unfolding fix_diane_client9_inject_def
    using re_sub_group_lit[OF fix_diane_client9_pattern_parse fix_diane_client9_pattern_nonempty
            fix_diane_client9_template, of x False]
    by simp
qed

lemma fix_diane_client9_signature_in_add_func:
  "py_in fix_diane_client9_signature fix_diane_client9_add_func"
  by code_simp

lemma fix_diane_client4_pattern_text:
  \<open>pattern_text fix_diane_client4_pattern =
     ''    func addAgent(agent: AgentConfig) async throws {\<newline>'' @
     ''        try await requestWithBody(endpoint: "/agents", method: "POST", body: agent)\<newline>'' @
     ''    }''\<close>
  by code_simp

lemma fix_diane_client4_pattern_parse:
  "parse_re fix_diane_client4_pattern =
     Some (GOpen # map Chr (pattern_text fix_diane_client4_pattern) @ [GClose])"
  by code_simp

lemma fix_diane_client4_pattern_nonempty: "pattern_text fix_diane_client4_pattern \<noteq> []"
  by code_simp

lemma fix_diane_client4_template:
  "parse_template 1 (str_strip ''\<newline>'' fix_diane_client4_add_func) =
     Inr (map TChr (str_strip ''\<newline>'' fix_diane_client4_add_func))"
proof (rule parse_template_plain)
  show "BSL \<notin> set (str_strip ''\<newline>'' fix_diane_client4_add_func)" by code_simp
qed

lemma fix_diane_client4_transform_eq:
  "fix_diane_client4_transform x =
     Inr (replace_scan (pattern_text fix_diane_client4_pattern)
            (str_strip ''\<newline>'' fix_diane_client4_add_func) x)"
  unfolding fix_diane_client4_transform_def
  using re_sub_group_lit[OF fix_diane_client4_pattern_parse fix_diane_client4_pattern_nonempty
          fix_diane_client4_template, of x False]
        expand_map_TChr[of "str_strip ''\<newline>'' fix_diane_client4_add_func" "[]"]
  by simp

lemma fix_diane_client9_cleanup_total: "\<exists>y. fix_diane_client9_cleanup x = Inr y"
proof -
  have "\<exists>as. parse_re fix_diane_client9_cleanup_pattern = Some as \<and> groups_ok False as
          \<and> 0 < min_len as"
    by (simp add: fix_diane_client9_cleanup_pattern_def re_chars)
  then show ?thesis
    by (auto simp: fix_diane_client9_cleanup_def re_sub_def cons_res_def)
qed


lemma fix_diane_client10_signature_in_add_func:
  "py_in fix_diane_client10_signature fix_diane_client10_add_func"
  by code_simp

lemma fix_diane_client10_marker_nonempty: "fix_diane_client10_marker \<noteq> []"
  by code_simp

lemma fix_http_client_test_agent_pattern_text:
  \<open>pattern_text fix_http_client_test_agent_pattern =
     ''    func testAgent(name: String) async throws -> AgentTestResult {\<newline>'' @
     ''        throw DianeHTTPClientError.readOnlyMode\<newline>'' @
     ''    }''\<close>
  by code_simp

lemma fix_http_client_test_agent_pattern_parse:
  "parse_re fix_http_client_test_agent_pattern =
     Some (map Chr (pattern_text fix_http_client_test_agent_pattern))"
  by code_simp

lemma fix_http_client_test_agent_pattern_nonempty: "pattern_text fix_http_client_test_agent_pattern \<noteq> []"
  by code_simp

lemma fix_http_client_test_agent_template:
  "\<exists>tp. parse_template 0 (str_strip ''\<newline>'' fix_http_client_test_agent) = Inr tp"
proof -
  have "\<not> isl (parse_template 0 (str_strip ''\<newline>'' fix_http_client_test_agent))" by code_simp
  then show ?thesis by (cases "parse_template 0 (str_strip ''\<newline>'' fix_http_client_test_agent)") auto
qed

lemma fix_http_client_test_agent_rule:
  "\<exists>new. \<forall>x. re_sub fix_http_client_test_agent_pattern (str_strip ''\<newline>'' fix_http_client_test_agent) x False =
            Inr (replace_scan (pattern_text fix_http_client_test_agent_pattern) new x)"
proof -
  obtain tp where tp: "parse_template 0 (str_strip ''\<newline>'' fix_http_client_test_agent) = Inr tp"
    using fix_http_client_test_agent_template by blast
  show ?thesis
    using re_sub_plain_lit[OF fix_http_client_test_agent_pattern_parse fix_http_client_test_agent_pattern_nonempty tp] by blast
qed

lemma fix_http_client_toggle_agent_pattern_text:
  \<open>pattern_text fix_http_client_toggle_agent_pattern =
     ''    func toggleAgent(name: String, enabled: Bool) async throws {\<newline>'' @
     ''        throw DianeHTTPClientError.readOnlyMode\<newline>'' @
     ''    }''\<close>
  by code_simp

lemma fix_http_client_toggle_agent_pattern_parse:
  "parse_re fix_http_client_toggle_agent_pattern =
     Some (map Chr (pattern_text fix_http_client_toggle_agent_pattern))"
  by code_simp

lemma fix_http_client_toggle_agent_pattern_nonempty: "pattern_text fix_http_client_toggle_agent_pattern \<noteq> []"
  by code_simp

lemma fix_http_client_toggle_agent_template:
  "\<exists>tp. parse_template 0 (str_strip ''\<newline>'' fix_http_client_toggle_agent) = Inr tp"
proof -
  have "\<not> isl (parse_template 0 (str_strip ''\<newline>'' fix_http_client_toggle_agent))" by code_simp
  then show ?thesis by (cases "parse_template 0 (str_strip ''\<newline>'' fix_http_client_toggle_agent)") auto
qed

lemma fix_http_client_toggle_agent_rule:
  "\<exists>new. \<forall>x. re_sub fix_http_client_toggle_agent_pattern (str_strip ''\<newline>'' fix_http_client_toggle_agent) x False =
            Inr (replace_scan (pattern_text fix_http_client_toggle_agent_pattern) new x)"
proof -
  obtain tp where tp: "parse_template 0 (str_strip ''\<newline>'' fix_http_client_toggle_agent) = Inr tp"
    using fix_http_client_toggle_agent_template by blast
  show ?thesis
    using re_sub_plain_lit[OF fix_http_client_toggle_agent_pattern_parse fix_http_client_toggle_agent_pattern_nonempty tp] by blast
qed

lemma fix_http_client_run_agent_pattern_text:
  \<open>pattern_text fix_http_client_run_agent_pattern =
     ''    func runAgentPrompt(agentName: String, prompt: String, remoteAgentName: String?) async throws -> AgentRunResult {\<newline>'' @
     ''        throw DianeHTTPClientError.readOnlyMode\<newline>'' @
     ''    }''\<close>
  by code_simp

lemma fix_http_client_run_agent_pattern_parse:
  "parse_re fix_http_client_run_agent_pattern =
     Some (map Chr (pattern_text fix_http_client_run_agent_pattern))"
  by code_simp

lemma fix_http_client_run_agent_pattern_nonempty: "pattern_text fix_http_client_run_agent_pattern \<noteq> []"
  by code_simp

lemma fix_http_client_run_agent_template:
  "\<exists>tp. parse_template 0 (str_strip ''\<newline>'' fix_http_client_run_agent) = Inr tp"
proof -
  have "\<not> isl (parse_template 0 (str_strip ''\<newline>'' fix_http_client_run_agent))" by code_simp
  then show ?thesis by (cases "parse_template 0 (str_strip ''\<newline>'' fix_http_client_run_agent)") auto
qed

lemma fix_http_client_run_agent_rule:
  "\<exists>new. \<forall>x. re_sub fix_http_client_run_agent_pattern (str_strip ''\<newline>'' fix_http_client_run_agent) x False =
            Inr (replace_scan (pattern_text fix_http_client_run_agent_pattern) new x)"
proof -
  obtain tp where tp: "parse_template 0 (str_strip ''\<newline>'' fix_http_client_run_agent) = Inr tp"
    using fix_http_client_run_agent_template by blast
  show ?thesis
    using re_sub_plain_lit[OF fix_http_client_run_agent_pattern_parse fix_http_client_run_agent_pattern_nonempty tp] by blast
qed

lemma fix_http_client_remove_agent_pattern_text:
  \<open>pattern_text fix_http_client_remove_agent_pattern =
     ''    func removeAgent(name: String) async throws {\<newline>'' @
     ''        throw DianeHTTPClientError.readOnlyMode\<newline>'' @
     ''    }''\<close>
  by code_simp

lemma fix_http_client_remove_agent_pattern_parse:
  "parse_re fix_http_client_remove_agent_pattern =
     Some (map Chr (pattern_text fix_http_client_remove_agent_pattern))"
  by code_simp

lemma fix_http_client_remove_agent_pattern_nonempty: "pattern_text fix_http_client_remove_agent_pattern \<noteq> []"
  by code_simp

lemma fix_http_client_remove_agent_template:
  "\<exists>tp. parse_template 0 (str_strip ''\<newline>'' fix_http_client_remove_agent) = Inr tp"
proof -
  have "\<not> isl (parse_template 0 (str_strip ''\<newline>'' fix_http_client_remove_agent))" by code_simp
  then show ?thesis by (cases "parse_template 0 (str_strip ''\<newline>'' fix_http_client_remove_agent)") auto
qed

lemma fix_http_client_remove_agent_rule:
  "\<exists>new. \<forall>x. re_sub fix_http_client_remove_agent_pattern (str_strip ''\<newline>'' fix_http_client_remove_agent) x False =
            Inr (replace_scan (pattern_text fix_http_client_remove_agent_pattern) new x)"
proof -
  obtain tp where tp: "parse_template 0 (str_strip ''\<newline>'' fix_http_client_remove_agent) = Inr tp"
    using fix_http_client_remove_agent_template by blast
  show ?thesis
    using re_sub_plain_lit[OF fix_http_client_remove_agent_pattern_parse fix_http_client_remove_agent_pattern_nonempty tp] by blast
qed

lemma fix_http_client_update_agent_pattern_text:
  \<open>pattern_text fix_http_client_update_agent_pattern =
     ''    func updateAgent(name: String, subAgent: String?, enabled: Bool?, description: String?, workdir: String?) async throws {\<newline>'' @
     ''        throw DianeHTTPClientError.readOnlyMode\<newline>'' @
     ''    }''\<close>
  by code_simp

lemma fix_http_client_update_agent_pattern_parse:
  "parse_re fix_http_client_update_agent_pattern =
     Some (map Chr (pattern_text fix_http_client_update_agent_pattern))"
  by code_simp

lemma fix_http_client_update_agent_pattern_nonempty: "pattern_text fix_http_client_update_agent_pattern \<noteq> []"
  by code_simp

lemma fix_http_client_update_agent_template:
  "\<exists>tp. parse_template 0 (str_strip ''\<newline>'' fix_http_client_update_agent) = Inr tp"
proof -
  have "\<not> isl (parse_template 0 (str_strip ''\<newline>'' fix_http_client_update_agent))" by code_simp
  then show ?thesis by (cases "parse_template 0 (str_strip ''\<newline>'' fix_http_client_update_agent)") auto
qed

lemma fix_http_client_update_agent_rule:
  "\<exists>new. \<forall>x. re_sub fix_http_client_update_agent_pattern (str_strip ''\<newline>'' fix_http_client_update_agent) x False =
            Inr (replace_scan (pattern_text fix_http_client_update_agent_pattern) new x)"
proof -
  obtain tp where tp: "parse_template 0 (str_strip ''\<newline>'' fix_http_client_update_agent) = Inr tp"
    using fix_http_client_update_agent_template by blast
  show ?thesis
    using re_sub_plain_lit[OF fix_http_client_update_agent_pattern_parse fix_http_client_update_agent_pattern_nonempty tp] by blast
qed

section \<open>The guarded insertions\<close>

lemma fix_diane_client10_applied:
  assumes "\<not> py_in fix_diane_client10_signature x" and "py_in fix_diane_client10_marker x"
  shows "py_in fix_diane_client10_signature (fix_diane_client10_transform x)"
proof -
  let ?new = "fix_diane_client10_add_func @ ''\<newline>    // MARK: - Gallery\<newline>''"
  have "py_in ?new (replace_scan fix_diane_client10_marker ?new x)"
    using replace_scan_present[OF fix_diane_client10_marker_nonempty assms(2)] .
  moreover have "py_in fix_diane_client10_signature ?new"
    using fix_diane_client10_signature_in_add_func by (rule py_in_append_right)
  ultimately have "py_in fix_diane_client10_signature
                     (replace_scan fix_diane_client10_marker ?new x)"
    using py_in_trans by blast
  then show ?thesis
    using assms(1) fix_diane_client10_marker_nonempty
    by (simp add: fix_diane_client10_transform_def str_replace_def)
qed

lemma fix_diane_client10_unchanged:
  assumes "py_in fix_diane_client10_signature x \<or> \<not> py_in fix_diane_client10_marker x"
  shows "fix_diane_client10_transform x = x"
  using assms fix_diane_client10_marker_nonempty
  by (auto simp: fix_diane_client10_transform_def str_replace_def replace_scan_absent)

lemma fix_diane_client10_idem:
  "fix_diane_client10_transform (fix_diane_client10_transform x) = fix_diane_client10_transform x"
proof (cases "\<not> py_in fix_diane_client10_signature x \<and> py_in fix_diane_client10_marker x")
  case True
  then show ?thesis using fix_diane_client10_applied fix_diane_client10_unchanged by blast
next
  case False
  then have "fix_diane_client10_transform x = x" using fix_diane_client10_unchanged by blast
  then show ?thesis by simp
qed

lemma fix_diane_client2_applied:
  assumes "\<not> py_in fix_diane_client2_signature x"
    and "py_in (pattern_text fix_diane_client2_pattern) x"
  shows "\<exists>y. fix_diane_client2_transform x = Inr y \<and> py_in fix_diane_client2_signature y"
proof -
  let ?new = "fix_diane_client2_add_func @ ''\<newline>'' @ pattern_text fix_diane_client2_pattern"
  have "py_in ?new (replace_scan (pattern_text fix_diane_client2_pattern) ?new x)"
    using replace_scan_present[OF fix_diane_client2_pattern_nonempty assms(2)] .
  moreover have "py_in fix_diane_client2_signature ?new"
    using fix_diane_client2_signature_in_add_func by (rule py_in_append_right)
  ultimately have "py_in fix_diane_client2_signature
                     (replace_scan (pattern_text fix_diane_client2_pattern) ?new x)"
    using py_in_trans by blast
  then show ?thesis using assms(1) by (simp add: fix_diane_client2_transform_eq)
qed

lemma fix_diane_client2_unchanged:
  assumes "py_in fix_diane_client2_signature x \<or> \<not> py_in (pattern_text fix_diane_client2_pattern) x"
  shows "fix_diane_client2_transform x = Inr x"
  using assms by (auto simp: fix_diane_client2_transform_eq replace_scan_absent)

lemma fix_diane_client2_idem:
  "\<exists>y. fix_diane_client2_transform x = Inr y \<and> fix_diane_client2_transform y = Inr y"
proof (cases "\<not> py_in fix_diane_client2_signature x \<and> py_in (pattern_text fix_diane_client2_pattern) x")
  case True
  then obtain y where "fix_diane_client2_transform x = Inr y" "py_in fix_diane_client2_signature y"
    using fix_diane_client2_applied by blast
  then show ?thesis using fix_diane_client2_unchanged by blast
next
  case False
  then have "fix_diane_client2_transform x = Inr x" using fix_diane_client2_unchanged by blast
  then show ?thesis by simp
qed

lemma bind_res_Inr: "bind_res (Inr x) f = f x"
  by (simp add: bind_res_def)

text \<open>A file with \<^verbatim>\<open>\r\n\<close> line ends and no marker is written back with \<^verbatim>\<open>\n\<close> line ends.\<close>

lemma fix_diane_client_rewrites_crlf:
  "map_sum id (\<lambda>w'. (files w' fix_diane_client_path, writes w'))
     (fix_diane_client
        \<lparr>files = map_of [(fix_diane_client_path, ''import Foundation'' @ [CRC, NLC])],
         linesep = ''\<newline>'', writes = [], stdout = []\<rparr>) =
   Inr (Some ''import Foundation\<newline>'',
        [(fix_diane_client_path, ''import Foundation\<newline>'')])"
  by code_simp

section \<open>The claims\<close>

text \<open>
  C1. The claim: applying the same script twice yields applied, then skipped, and the second
  run leaves the text of the first unchanged, for every script. \<^verbatim>\<open>fix_diane_client.py\<close> has no
  test for what it inserts: run on the text that is just its marker line it inserts the
  function, and run on that result it inserts the function a second time.
\<close>

theorem fix_diane_client_second_run_inserts_again:
  "fix_diane_client_transform ''    // MARK: - Agents\<newline>'' =
     Inr (''    // MARK: - Agents\<newline>'' @ fix_diane_client_add_func)
   \<and> fix_diane_client_transform (''    // MARK: - Agents\<newline>'' @ fix_diane_client_add_func) =
     Inr (''    // MARK: - Agents\<newline>'' @ fix_diane_client_add_func @ fix_diane_client_add_func)
   \<and> ''    // MARK: - Agents\<newline>'' @ fix_diane_client_add_func @ fix_diane_client_add_func \<noteq>
     ''    // MARK: - Agents\<newline>'' @ fix_diane_client_add_func"
  by code_simp

text \<open>
  C1, as amended. For the scripts that test for the signature before they insert
  (\<^verbatim>\<open>fix_diane_client2.py\<close>, \<^verbatim>\<open>fix_diane_client10.py\<close>): when the signature is absent and the
  marker present the first run changes the text (applied) and leaves the signature in it, so
  the second run takes the branch that does nothing (skipped) and returns the text of the
  first run; and on every text a second run returns the text of the first.
\<close>

theorem guarded_scripts_second_run_is_noop:
  "(\<not> py_in fix_diane_client10_signature x \<and> py_in fix_diane_client10_marker x \<longrightarrow>
      fix_diane_client10_transform x \<noteq> x
      \<and> py_in fix_diane_client10_signature (fix_diane_client10_transform x))
   \<and> fix_diane_client10_transform (fix_diane_client10_transform x) = fix_diane_client10_transform x
   \<and> (\<not> py_in fix_diane_client2_signature x \<and> py_in (pattern_text fix_diane_client2_pattern) x \<longrightarrow>
        (\<exists>y. fix_diane_client2_transform x = Inr y \<and> y \<noteq> x \<and> py_in fix_diane_client2_signature y))
   \<and> (\<exists>y. fix_diane_client2_transform x = Inr y \<and> fix_diane_client2_transform y = Inr y)"
proof (intro conjI impI)
  assume a: "\<not> py_in fix_diane_client10_signature x \<and> py_in fix_diane_client10_marker x"
  then show "py_in fix_diane_client10_signature (fix_diane_client10_transform x)"
    using fix_diane_client10_applied by blast
  with a show "fix_diane_client10_transform x \<noteq> x" by auto
next
  show "fix_diane_client10_transform (fix_diane_client10_transform x) = fix_diane_client10_transform x"
    by (rule fix_diane_client10_idem)
next
  assume a: "\<not> py_in fix_diane_client2_signature x \<and> py_in (pattern_text fix_diane_client2_pattern) x"
  then obtain y where y: "fix_diane_client2_transform x = Inr y" "py_in fix_diane_client2_signature y"
    using fix_diane_client2_applied by blast
  with a have "y \<noteq> x" by auto
  with y show "\<exists>y. fix_diane_client2_transform x = Inr y \<and> y \<noteq> x \<and> py_in fix_diane_client2_signature y"
    by blast
next
  show "\<exists>y. fix_diane_client2_transform x = Inr y \<and> fix_diane_client2_transform y = Inr y"
    by (rule fix_diane_client2_idem)
qed

theorem guarded_scripts_second_run_is_noop_witness:
  "\<not> py_in fix_diane_client10_signature ''    // MARK: - Gallery\<newline>''
   \<and> py_in fix_diane_client10_marker ''    // MARK: - Gallery\<newline>''
   \<and> fix_diane_client10_transform ''    // MARK: - Gallery\<newline>'' \<noteq> ''    // MARK: - Gallery\<newline>''
   \<and> py_in fix_diane_client10_signature (fix_diane_client10_transform ''    // MARK: - Gallery\<newline>'')
   \<and> fix_diane_client10_transform (fix_diane_client10_transform ''    // MARK: - Gallery\<newline>'') =
       fix_diane_client10_transform ''    // MARK: - Gallery\<newline>''
   \<and> \<not> py_in fix_diane_client2_signature ''    // MARK: - Gallery\<newline>''
   \<and> py_in (pattern_text fix_diane_client2_pattern) ''    // MARK: - Gallery\<newline>''
   \<and> (\<exists>y. fix_diane_client2_transform ''    // MARK: - Gallery\<newline>'' = Inr y
          \<and> y \<noteq> ''    // MARK: - Gallery\<newline>'' \<and> py_in fix_diane_client2_signature y)"
proof -
  have h1: "\<not> py_in fix_diane_client10_signature ''    // MARK: - Gallery\<newline>''" by code_simp
  have h2: "py_in fix_diane_client10_marker ''    // MARK: - Gallery\<newline>''" by code_simp
  have h3: "\<not> py_in fix_diane_client2_signature ''    // MARK: - Gallery\<newline>''" by code_simp
  have h4: "py_in (pattern_text fix_diane_client2_pattern) ''    // MARK: - Gallery\<newline>''"
    by code_simp
  show ?thesis
    using guarded_scripts_second_run_is_noop[of "''    // MARK: - Gallery\<newline>''"] h1 h2 h3 h4
    by blast
qed




text \<open>
  C3. When no pattern of a script matches, or the signature test skips the insertion, the
  text is returned as it was read: for \<^verbatim>\<open>fix_diane_client4.py\<close> when its pattern is absent, for
  \<^verbatim>\<open>patch_agents_view.py\<close> when neither block is found, and for the guarded insertions of
  \<^verbatim>\<open>fix_diane_client10.py\<close> and \<^verbatim>\<open>fix_diane_client2.py\<close> when the signature is present
  (skipped) or the marker absent (not found).
\<close>

theorem not_found_or_skipped_keeps_text:
  "(\<not> py_in (pattern_text fix_diane_client4_pattern) x \<longrightarrow> fix_diane_client4_transform x = Inr x)
   \<and> (\<not> py_in patch_agents_view_old_fields x \<and> \<not> py_in patch_agents_view_old_disabled x \<longrightarrow>
        fst (patch_agents_view_transform x) = x)
   \<and> (py_in fix_diane_client10_signature x \<or> \<not> py_in fix_diane_client10_marker x \<longrightarrow>
        fix_diane_client10_transform x = x)
   \<and> (py_in fix_diane_client2_signature x \<or> \<not> py_in (pattern_text fix_diane_client2_pattern) x \<longrightarrow>
        fix_diane_client2_transform x = Inr x)"
proof (intro conjI impI)
  assume "\<not> py_in (pattern_text fix_diane_client4_pattern) x"
  then show "fix_diane_client4_transform x = Inr x"
    by (simp add: fix_diane_client4_transform_eq replace_scan_absent)
next
  assume "\<not> py_in patch_agents_view_old_fields x \<and> \<not> py_in patch_agents_view_old_disabled x"
  then show "fst (patch_agents_view_transform x) = x"
    by (simp add: patch_agents_view_transform_def)
next
  assume "py_in fix_diane_client10_signature x \<or> \<not> py_in fix_diane_client10_marker x"
  then show "fix_diane_client10_transform x = x" by (rule fix_diane_client10_unchanged)
next
  assume "py_in fix_diane_client2_signature x \<or> \<not> py_in (pattern_text fix_diane_client2_pattern) x"
  then show "fix_diane_client2_transform x = Inr x" by (rule fix_diane_client2_unchanged)
qed

theorem not_found_or_skipped_keeps_text_witness:
  "\<not> py_in (pattern_text fix_diane_client4_pattern) ''func addAgent(agent: AgentConfig)''
   \<and> \<not> py_in patch_agents_view_old_fields ''func addAgent(agent: AgentConfig)''
   \<and> \<not> py_in patch_agents_view_old_disabled ''func addAgent(agent: AgentConfig)''
   \<and> py_in fix_diane_client10_signature ''func addAgent(agent: AgentConfig)''
   \<and> py_in fix_diane_client2_signature ''func addAgent(agent: AgentConfig)''
   \<and> fix_diane_client4_transform ''func addAgent(agent: AgentConfig)'' =
       Inr ''func addAgent(agent: AgentConfig)''
   \<and> fst (patch_agents_view_transform ''func addAgent(agent: AgentConfig)'') =
       ''func addAgent(agent: AgentConfig)''
   \<and> fix_diane_client10_transform ''func addAgent(agent: AgentConfig)'' =
       ''func addAgent(agent: AgentConfig)''
   \<and> fix_diane_client2_transform ''func addAgent(agent: AgentConfig)'' =
       Inr ''func addAgent(agent: AgentConfig)''"
proof -
  have h1: "\<not> py_in (pattern_text fix_diane_client4_pattern) ''func addAgent(agent: AgentConfig)''"
    by code_simp
  have h2: "\<not> py_in patch_agents_view_old_fields ''func addAgent(agent: AgentConfig)''"
    by code_simp
  have h3: "\<not> py_in patch_agents_view_old_disabled ''func addAgent(agent: AgentConfig)''"
    by code_simp
  have h4: "py_in fix_diane_client10_signature ''func addAgent(agent: AgentConfig)''"
    by code_simp
  have h5: "py_in fix_diane_client2_signature ''func addAgent(agent: AgentConfig)''"
    by code_simp
  show ?thesis
    using not_found_or_skipped_keeps_text[of "''func addAgent(agent: AgentConfig)''"]
      h1 h2 h3 h4 h5
    by blast
qed

text \<open>
  C4. The claim: where a pattern occurs more than once, only the first occurrence is
  substituted. \<^verbatim>\<open>content.replace(old, new)\<close> and \<^verbatim>\<open>re.sub\<close> are called without a count
  throughout: in \<^verbatim>\<open>patch_agents_view.py\<close> a text with the old \<^verbatim>\<open>.disabled(...)\<close> line twice
  comes back with both replaced, not with the second one kept.
\<close>

theorem patch_agents_view_replaces_both_occurrences:
  "fst (patch_agents_view_transform
          (patch_agents_view_old_disabled @ ''|'' @ patch_agents_view_old_disabled)) =
     patch_agents_view_new_disabled @ ''|'' @ patch_agents_view_new_disabled
   \<and> patch_agents_view_new_disabled @ ''|'' @ patch_agents_view_new_disabled \<noteq>
     patch_agents_view_new_disabled @ ''|'' @ patch_agents_view_old_disabled"
  by code_simp

text \<open>
  C4, as amended. The substitution takes place at the first occurrence in document order
  and then goes on in the text behind it, so every further occurrence that does not overlap
  a replaced one is substituted too: if \<open>old\<close> does not start inside \<open>a\<close>, then
  replacing in \<open>a @ old @ b\<close> keeps \<open>a\<close>, puts \<open>new\<close> and replaces in \<open>b\<close> in the same
  way. The same holds for the \<^verbatim>\<open>re.sub\<close> of \<^verbatim>\<open>fix_diane_client.py\<close>.
\<close>

theorem replace_goes_on_after_first_occurrence:
  "old \<noteq> [] \<and> \<not> py_in old (a @ butlast old) \<longrightarrow>
     str_replace old new (a @ old @ b) = a @ new @ str_replace old new b
     \<and> (old = pattern_text fix_diane_client_pattern \<longrightarrow>
          (\<exists>r. fix_diane_client_transform b = Inr r
             \<and> fix_diane_client_transform (a @ old @ b) =
                 Inr (a @ old @ fix_diane_client_add_func @ r)))"
proof (intro impI, elim conjE)
  assume ne: "old \<noteq> []" and first: "\<not> py_in old (a @ butlast old)"
  have scan: "replace_scan old n (a @ old @ b) = a @ n @ replace_scan old n b" for n
    using replace_scan_first[OF ne first] .
  show "str_replace old new (a @ old @ b) = a @ new @ str_replace old new b
        \<and> (old = pattern_text fix_diane_client_pattern \<longrightarrow>
             (\<exists>r. fix_diane_client_transform b = Inr r
                \<and> fix_diane_client_transform (a @ old @ b) =
                    Inr (a @ old @ fix_diane_client_add_func @ r)))"
    using ne scan[of new] scan[of "old @ fix_diane_client_add_func"]
    by (auto simp: str_replace_def fix_diane_client_transform_eq)
qed

theorem replace_goes_on_after_first_occurrence_witness:
  "pattern_text fix_diane_client_pattern \<noteq> []
   \<and> \<not> py_in (pattern_text fix_diane_client_pattern)
          (''x'' @ butlast (pattern_text fix_diane_client_pattern))
   \<and> str_replace (pattern_text fix_diane_client_pattern) ''new''
        (''x'' @ pattern_text fix_diane_client_pattern @ pattern_text fix_diane_client_pattern) =
      ''x'' @ ''new'' @ ''new''
   \<and> fix_diane_client_transform
        (''x'' @ pattern_text fix_diane_client_pattern @ pattern_text fix_diane_client_pattern) =
      Inr (''x'' @ pattern_text fix_diane_client_pattern @ fix_diane_client_add_func @
           pattern_text fix_diane_client_pattern @ fix_diane_client_add_func)"
proof -
  let ?old = "pattern_text fix_diane_client_pattern"
  have h1: "?old \<noteq> []" by (rule fix_diane_client_pattern_nonempty)
  have h2: "\<not> py_in ?old (''x'' @ butlast ?old)" by code_simp
  have r1: "str_replace ?old ''new'' ?old = ''new''" by code_simp
  have r2: "fix_diane_client_transform ?old = Inr (?old @ fix_diane_client_add_func)" by code_simp
  from replace_goes_on_after_first_occurrence[of ?old "''x''" "''new''" ?old] h1 h2
  have "str_replace ?old ''new'' (''x'' @ ?old @ ?old) = ''x'' @ ''new'' @ str_replace ?old ''new'' ?old"
    and "\<exists>r. fix_diane_client_transform ?old = Inr r
           \<and> fix_diane_client_transform (''x'' @ ?old @ ?old) =
               Inr (''x'' @ ?old @ fix_diane_client_add_func @ r)"
    by blast+
  then show ?thesis using h1 h2 r1 r2 by auto
qed

text \<open>
  C5. A replacement of a span leaves the text outside the matched spans as it was. The text
  read is some pieces joined by the pattern; the result is the same pieces joined by the
  replacement; no piece holds the pattern. This is shown for the \<^verbatim>\<open>re.sub\<close> of
  \<^verbatim>\<open>fix_diane_client4.py\<close> and for the second \<^verbatim>\<open>content.replace\<close> of
  \<^verbatim>\<open>patch_agents_view_model.py\<close>, on the text left by the first.
\<close>

theorem replace_span_keeps_outside:
  "(\<exists>ps. ps \<noteq> [] \<and> x = str_join (pattern_text fix_diane_client4_pattern) ps
       \<and> fix_diane_client4_transform x =
           Inr (str_join (str_strip ''\<newline>'' fix_diane_client4_add_func) ps)
       \<and> (\<forall>p \<in> set ps. \<not> py_in (pattern_text fix_diane_client4_pattern) p)
       \<and> (py_in (pattern_text fix_diane_client4_pattern) x \<longleftrightarrow> 2 \<le> length ps))
   \<and> (\<exists>ps. ps \<noteq> [] \<and> fst (patch_agents_view_model_props x) = str_join patch_agents_view_model_old_add ps
         \<and> fst (patch_agents_view_model_transform x) = str_join patch_agents_view_model_new_add ps
         \<and> (\<forall>p \<in> set ps. \<not> py_in patch_agents_view_model_old_add p)
         \<and> (py_in patch_agents_view_model_old_add (fst (patch_agents_view_model_props x))
              \<longleftrightarrow> 2 \<le> length ps))"
proof
  show "\<exists>ps. ps \<noteq> [] \<and> x = str_join (pattern_text fix_diane_client4_pattern) ps
       \<and> fix_diane_client4_transform x =
           Inr (str_join (str_strip ''\<newline>'' fix_diane_client4_add_func) ps)
       \<and> (\<forall>p \<in> set ps. \<not> py_in (pattern_text fix_diane_client4_pattern) p)
       \<and> (py_in (pattern_text fix_diane_client4_pattern) x \<longleftrightarrow> 2 \<le> length ps)"
    using replace_scan_pieces[OF fix_diane_client4_pattern_nonempty,
            of x "str_strip ''\<newline>'' fix_diane_client4_add_func"]
    by (simp add: fix_diane_client4_transform_eq)
next
  let ?c = "fst (patch_agents_view_model_props x)"
  have ne: "patch_agents_view_model_old_add \<noteq> []" by code_simp
  have "fst (patch_agents_view_model_transform x) =
        replace_scan patch_agents_view_model_old_add patch_agents_view_model_new_add ?c"
    using ne
    by (simp add: patch_agents_view_model_transform_def str_replace_def replace_scan_absent
          split: prod.splits)
  then show "\<exists>ps. ps \<noteq> [] \<and> ?c = str_join patch_agents_view_model_old_add ps
         \<and> fst (patch_agents_view_model_transform x) = str_join patch_agents_view_model_new_add ps
         \<and> (\<forall>p \<in> set ps. \<not> py_in patch_agents_view_model_old_add p)
         \<and> (py_in patch_agents_view_model_old_add ?c \<longleftrightarrow> 2 \<le> length ps)"
    using replace_scan_pieces[OF ne, of ?c patch_agents_view_model_new_add] by simp
qed

theorem replace_span_keeps_outside_witness:
  "py_in (pattern_text fix_diane_client4_pattern)
     (''class C {\<newline>'' @ pattern_text fix_diane_client4_pattern @ ''\<newline>}\<newline>'')
   \<and> fix_diane_client4_transform
       (''class C {\<newline>'' @ pattern_text fix_diane_client4_pattern @ ''\<newline>}\<newline>'') =
       Inr (''class C {\<newline>'' @ str_strip ''\<newline>'' fix_diane_client4_add_func @ ''\<newline>}\<newline>'')
   \<and> (\<exists>ps. 2 \<le> length ps
         \<and> ''class C {\<newline>'' @ pattern_text fix_diane_client4_pattern @ ''\<newline>}\<newline>'' =
             str_join (pattern_text fix_diane_client4_pattern) ps
         \<and> fix_diane_client4_transform
             (''class C {\<newline>'' @ pattern_text fix_diane_client4_pattern @ ''\<newline>}\<newline>'') =
             Inr (str_join (str_strip ''\<newline>'' fix_diane_client4_add_func) ps))"
proof -
  let ?x = "''class C {\<newline>'' @ pattern_text fix_diane_client4_pattern @ ''\<newline>}\<newline>''"
  have h: "py_in (pattern_text fix_diane_client4_pattern) ?x" by code_simp
  have e: "fix_diane_client4_transform ?x =
           Inr (''class C {\<newline>'' @ str_strip ''\<newline>'' fix_diane_client4_add_func @ ''\<newline>}\<newline>'')"
    by code_simp
  from replace_span_keeps_outside[of ?x] h
  have "\<exists>ps. 2 \<le> length ps \<and> ?x = str_join (pattern_text fix_diane_client4_pattern) ps
         \<and> fix_diane_client4_transform ?x =
             Inr (str_join (str_strip ''\<newline>'' fix_diane_client4_add_func) ps)"
    by blast
  then show ?thesis using h e by blast
qed

text \<open>
  C6. An insertion next to an anchor keeps the anchor. For \<^verbatim>\<open>fix_diane_client.py\<close> (the
  content goes behind the marker, by \<^verbatim>\<open>\1\<close>) and for \<^verbatim>\<open>fix_diane_client10.py\<close> (the content
  goes before the marker, which the replacement spells out again): the text read is some
  pieces joined by the marker, the result is the same pieces joined by the marker with the
  new content next to it, and where the marker occurs the result holds the marker with the
  content directly behind, or before, it.
\<close>

theorem insert_adjacent_keeps_anchor:
  "(\<exists>ps. ps \<noteq> [] \<and> x = str_join (pattern_text fix_diane_client_pattern) ps
       \<and> fix_diane_client_transform x =
           Inr (str_join (pattern_text fix_diane_client_pattern @ fix_diane_client_add_func) ps))
   \<and> (py_in (pattern_text fix_diane_client_pattern) x \<longrightarrow>
        (\<exists>y. fix_diane_client_transform x = Inr y
           \<and> py_in (pattern_text fix_diane_client_pattern @ fix_diane_client_add_func) y))
   \<and> (\<not> py_in fix_diane_client10_signature x \<longrightarrow>
        (\<exists>ps. ps \<noteq> [] \<and> x = str_join fix_diane_client10_marker ps
           \<and> fix_diane_client10_transform x =
               str_join (fix_diane_client10_add_func @ ''\<newline>'' @ fix_diane_client10_marker) ps))
   \<and> (\<not> py_in fix_diane_client10_signature x \<and> py_in fix_diane_client10_marker x \<longrightarrow>
        py_in (fix_diane_client10_add_func @ ''\<newline>'' @ fix_diane_client10_marker)
          (fix_diane_client10_transform x))"
proof (intro conjI impI)
  show "\<exists>ps. ps \<noteq> [] \<and> x = str_join (pattern_text fix_diane_client_pattern) ps
       \<and> fix_diane_client_transform x =
           Inr (str_join (pattern_text fix_diane_client_pattern @ fix_diane_client_add_func) ps)"
    using replace_scan_pieces[OF fix_diane_client_pattern_nonempty, of x
            "pattern_text fix_diane_client_pattern @ fix_diane_client_add_func"]
    by (auto simp: fix_diane_client_transform_eq)
next
  assume "py_in (pattern_text fix_diane_client_pattern) x"
  then show "\<exists>y. fix_diane_client_transform x = Inr y
           \<and> py_in (pattern_text fix_diane_client_pattern @ fix_diane_client_add_func) y"
    using replace_scan_present[OF fix_diane_client_pattern_nonempty]
    by (simp add: fix_diane_client_transform_eq)
next
  have new: "fix_diane_client10_add_func @ ''\<newline>    // MARK: - Gallery\<newline>'' =
             fix_diane_client10_add_func @ ''\<newline>'' @ fix_diane_client10_marker"
    by code_simp
  {
    assume a: "\<not> py_in fix_diane_client10_signature x"
    then have t: "fix_diane_client10_transform x =
               replace_scan fix_diane_client10_marker
                 (fix_diane_client10_add_func @ ''\<newline>'' @ fix_diane_client10_marker) x"
      using fix_diane_client10_marker_nonempty new
      by (simp add: fix_diane_client10_transform_def str_replace_def)
    show "\<exists>ps. ps \<noteq> [] \<and> x = str_join fix_diane_client10_marker ps
           \<and> fix_diane_client10_transform x =
               str_join (fix_diane_client10_add_func @ ''\<newline>'' @ fix_diane_client10_marker) ps"
      using replace_scan_pieces[OF fix_diane_client10_marker_nonempty, of x
              "fix_diane_client10_add_func @ ''\<newline>'' @ fix_diane_client10_marker"] t
      by auto
  }
  {
    assume a: "\<not> py_in fix_diane_client10_signature x \<and> py_in fix_diane_client10_marker x"
    then have t: "fix_diane_client10_transform x =
               replace_scan fix_diane_client10_marker
                 (fix_diane_client10_add_func @ ''\<newline>'' @ fix_diane_client10_marker) x"
      using fix_diane_client10_marker_nonempty new
      by (simp add: fix_diane_client10_transform_def str_replace_def)
    show "py_in (fix_diane_client10_add_func @ ''\<newline>'' @ fix_diane_client10_marker)
            (fix_diane_client10_transform x)"
      using replace_scan_present[OF fix_diane_client10_marker_nonempty] a t by simp
  }
qed

theorem insert_adjacent_keeps_anchor_witness:
  "py_in (pattern_text fix_diane_client_pattern)
     (''    // MARK: - Agents\<newline>'' @ ''    // MARK: - Gallery\<newline>'')
   \<and> \<not> py_in fix_diane_client10_signature
         (''    // MARK: - Agents\<newline>'' @ ''    // MARK: - Gallery\<newline>'')
   \<and> py_in fix_diane_client10_marker
         (''    // MARK: - Agents\<newline>'' @ ''    // MARK: - Gallery\<newline>'')
   \<and> (\<exists>y. fix_diane_client_transform
              (''    // MARK: - Agents\<newline>'' @ ''    // MARK: - Gallery\<newline>'') = Inr y
          \<and> py_in (pattern_text fix_diane_client_pattern @ fix_diane_client_add_func) y)
   \<and> py_in (fix_diane_client10_add_func @ ''\<newline>'' @ fix_diane_client10_marker)
        (fix_diane_client10_transform
           (''    // MARK: - Agents\<newline>'' @ ''    // MARK: - Gallery\<newline>''))"
proof -
  let ?x = "''    // MARK: - Agents\<newline>'' @ ''    // MARK: - Gallery\<newline>''"
  have h1: "py_in (pattern_text fix_diane_client_pattern) ?x" by code_simp
  have h2: "\<not> py_in fix_diane_client10_signature ?x" by code_simp
  have h3: "py_in fix_diane_client10_marker ?x" by code_simp
  show ?thesis using insert_adjacent_keeps_anchor[of ?x] h1 h2 h3 by blast
qed

text \<open>
  C7. A pattern that does not match raises nothing, and the statements that follow are
  executed. \<^verbatim>\<open>fix_http_client.py\<close> returns a text for every text read (its templates hold
  \<^verbatim>\<open>\(\<close>, which \<^verbatim>\<open>re\<close> accepts); when none of its five patterns occurs the text is the one
  read, and when the first does not occur the result is that of the other four
  substitutions on the text read. \<^verbatim>\<open>patch_agents_view.py\<close> prints that it did not find the
  first block and goes on to the second; the whole run ends with the write and the final
  message whenever the file can be read.
\<close>

theorem not_found_does_not_raise:
  "(\<exists>y. fix_http_client_transform x = Inr y)
   \<and> (\<not> py_in (pattern_text fix_http_client_test_agent_pattern) x
        \<and> \<not> py_in (pattern_text fix_http_client_toggle_agent_pattern) x
        \<and> \<not> py_in (pattern_text fix_http_client_run_agent_pattern) x
        \<and> \<not> py_in (pattern_text fix_http_client_remove_agent_pattern) x
        \<and> \<not> py_in (pattern_text fix_http_client_update_agent_pattern) x \<longrightarrow>
        fix_http_client_transform x = Inr x)
   \<and> (\<not> py_in (pattern_text fix_http_client_test_agent_pattern) x \<longrightarrow>
        fix_http_client_transform x =
          bind_res (re_sub fix_http_client_toggle_agent_pattern
                      (str_strip ''\<newline>'' fix_http_client_toggle_agent) x False) (\<lambda>content.
          bind_res (re_sub fix_http_client_run_agent_pattern
                      (str_strip ''\<newline>'' fix_http_client_run_agent) content False) (\<lambda>content.
          bind_res (re_sub fix_http_client_remove_agent_pattern
                      (str_strip ''\<newline>'' fix_http_client_remove_agent) content False) (\<lambda>content.
          re_sub fix_http_client_update_agent_pattern
            (str_strip ''\<newline>'' fix_http_client_update_agent) content False))))
   \<and> (\<not> py_in patch_agents_view_old_fields x \<longrightarrow>
        patch_agents_view_transform x =
          (if py_in patch_agents_view_old_disabled x
           then (str_replace patch_agents_view_old_disabled patch_agents_view_new_disabled x,
                 [''Could not find fields block''])
           else (x, [''Could not find fields block'', ''Could not find disabled block''])))
   \<and> (read_file patch_agents_view_path w = Inr x \<longrightarrow>
        (\<exists>w'. patch_agents_view w = Inr w'
           \<and> stdout w' = stdout w @ snd (patch_agents_view_transform x)
                           @ [''Python patch AgentsView complete'']
           \<and> writes w' = writes w @ [(patch_agents_view_path, fst (patch_agents_view_transform x))]))"
proof -
  obtain n1 where "\<forall>x. re_sub fix_http_client_test_agent_pattern
      (str_strip ''\<newline>'' fix_http_client_test_agent) x False =
      Inr (replace_scan (pattern_text fix_http_client_test_agent_pattern) n1 x)"
    using fix_http_client_test_agent_rule by blast
  note r1 = this[rule_format]
  obtain n2 where "\<forall>x. re_sub fix_http_client_toggle_agent_pattern
      (str_strip ''\<newline>'' fix_http_client_toggle_agent) x False =
      Inr (replace_scan (pattern_text fix_http_client_toggle_agent_pattern) n2 x)"
    using fix_http_client_toggle_agent_rule by blast
  note r2 = this[rule_format]
  obtain n3 where "\<forall>x. re_sub fix_http_client_run_agent_pattern
      (str_strip ''\<newline>'' fix_http_client_run_agent) x False =
      Inr (replace_scan (pattern_text fix_http_client_run_agent_pattern) n3 x)"
    using fix_http_client_run_agent_rule by blast
  note r3 = this[rule_format]
  obtain n4 where "\<forall>x. re_sub fix_http_client_remove_agent_pattern
      (str_strip ''\<newline>'' fix_http_client_remove_agent) x False =
      Inr (replace_scan (pattern_text fix_http_client_remove_agent_pattern) n4 x)"
    using fix_http_client_remove_agent_rule by blast
  note r4 = this[rule_format]
  obtain n5 where "\<forall>x. re_sub fix_http_client_update_agent_pattern
      (str_strip ''\<newline>'' fix_http_client_update_agent) x False =
      Inr (replace_scan (pattern_text fix_http_client_update_agent_pattern) n5 x)"
    using fix_http_client_update_agent_rule by blast
  note r5 = this[rule_format]
  have all: "fix_http_client_transform x =
     Inr (replace_scan (pattern_text fix_http_client_update_agent_pattern) n5
           (replace_scan (pattern_text fix_http_client_remove_agent_pattern) n4
             (replace_scan (pattern_text fix_http_client_run_agent_pattern) n3
               (replace_scan (pattern_text fix_http_client_toggle_agent_pattern) n2
                 (replace_scan (pattern_text fix_http_client_test_agent_pattern) n1 x)))))"
    by (simp only: fix_http_client_transform_def r1 r2 r3 r4 r5 bind_res_Inr)
  have total: "\<exists>y. fix_http_client_transform x = Inr y" using all by blast
  have none: "\<not> py_in (pattern_text fix_http_client_test_agent_pattern) x
        \<and> \<not> py_in (pattern_text fix_http_client_toggle_agent_pattern) x
        \<and> \<not> py_in (pattern_text fix_http_client_run_agent_pattern) x
        \<and> \<not> py_in (pattern_text fix_http_client_remove_agent_pattern) x
        \<and> \<not> py_in (pattern_text fix_http_client_update_agent_pattern) x \<longrightarrow>
        fix_http_client_transform x = Inr x"
    using all by (simp add: replace_scan_absent)
  have first: "\<not> py_in (pattern_text fix_http_client_test_agent_pattern) x \<longrightarrow>
        fix_http_client_transform x =
          bind_res (re_sub fix_http_client_toggle_agent_pattern
                      (str_strip ''\<newline>'' fix_http_client_toggle_agent) x False) (\<lambda>content.
          bind_res (re_sub fix_http_client_run_agent_pattern
                      (str_strip ''\<newline>'' fix_http_client_run_agent) content False) (\<lambda>content.
          bind_res (re_sub fix_http_client_remove_agent_pattern
                      (str_strip ''\<newline>'' fix_http_client_remove_agent) content False) (\<lambda>content.
          re_sub fix_http_client_update_agent_pattern
            (str_strip ''\<newline>'' fix_http_client_update_agent) content False)))"
  proof
    assume "\<not> py_in (pattern_text fix_http_client_test_agent_pattern) x"
    then have "replace_scan (pattern_text fix_http_client_test_agent_pattern) n1 x = x"
      by (rule replace_scan_absent)
    then show "fix_http_client_transform x =
          bind_res (re_sub fix_http_client_toggle_agent_pattern
                      (str_strip ''\<newline>'' fix_http_client_toggle_agent) x False) (\<lambda>content.
          bind_res (re_sub fix_http_client_run_agent_pattern
                      (str_strip ''\<newline>'' fix_http_client_run_agent) content False) (\<lambda>content.
          bind_res (re_sub fix_http_client_remove_agent_pattern
                      (str_strip ''\<newline>'' fix_http_client_remove_agent) content False) (\<lambda>content.
          re_sub fix_http_client_update_agent_pattern
            (str_strip ''\<newline>'' fix_http_client_update_agent) content False)))"
      by (simp only: fix_http_client_transform_def r1 bind_res_Inr)
  qed
  have view: "\<not> py_in patch_agents_view_old_fields x \<longrightarrow>
        patch_agents_view_transform x =
          (if py_in patch_agents_view_old_disabled x
           then (str_replace patch_agents_view_old_disabled patch_agents_view_new_disabled x,
                 [''Could not find fields block''])
           else (x, [''Could not find fields block'', ''Could not find disabled block'']))"
    by (simp add: patch_agents_view_transform_def)
  have run: "read_file patch_agents_view_path w = Inr x \<longrightarrow>
        (\<exists>w'. patch_agents_view w = Inr w'
           \<and> stdout w' = stdout w @ snd (patch_agents_view_transform x)
                           @ [''Python patch AgentsView complete'']
           \<and> writes w' = writes w @ [(patch_agents_view_path, fst (patch_agents_view_transform x))])"
    by (simp add: patch_agents_view_def bind_res_def write_file_def py_print_def
          py_prints_def split: prod.splits)
  show ?thesis using total none first view run by blast
qed

theorem not_found_does_not_raise_witness:
  "\<not> py_in (pattern_text fix_http_client_test_agent_pattern) ''class DianeHTTPClient {}''
   \<and> \<not> py_in (pattern_text fix_http_client_toggle_agent_pattern) ''class DianeHTTPClient {}''
   \<and> \<not> py_in (pattern_text fix_http_client_run_agent_pattern) ''class DianeHTTPClient {}''
   \<and> \<not> py_in (pattern_text fix_http_client_remove_agent_pattern) ''class DianeHTTPClient {}''
   \<and> \<not> py_in (pattern_text fix_http_client_update_agent_pattern) ''class DianeHTTPClient {}''
   \<and> \<not> py_in patch_agents_view_old_fields ''class DianeHTTPClient {}''
   \<and> \<not> py_in patch_agents_view_old_disabled ''class DianeHTTPClient {}''
   \<and> fix_http_client_transform ''class DianeHTTPClient {}'' = Inr ''class DianeHTTPClient {}''
   \<and> patch_agents_view_transform ''class DianeHTTPClient {}'' =
       (''class DianeHTTPClient {}'',
        [''Could not find fields block'', ''Could not find disabled block''])
   \<and> (\<exists>w'. patch_agents_view
              \<lparr>files = map_of [(patch_agents_view_path, ''class DianeHTTPClient {}'')],
               linesep = ''\<newline>'', writes = [], stdout = []\<rparr> = Inr w'
          \<and> stdout w' = [''Could not find fields block'', ''Could not find disabled block'',
                          ''Python patch AgentsView complete''])"
proof -
  let ?x = "''class DianeHTTPClient {}''"
  let ?w = "\<lparr>files = map_of [(patch_agents_view_path, ?x)], linesep = ''\<newline>'',
             writes = [], stdout = []\<rparr>"
  have h1: "\<not> py_in (pattern_text fix_http_client_test_agent_pattern) ?x" by code_simp
  have h2: "\<not> py_in (pattern_text fix_http_client_toggle_agent_pattern) ?x" by code_simp
  have h3: "\<not> py_in (pattern_text fix_http_client_run_agent_pattern) ?x" by code_simp
  have h4: "\<not> py_in (pattern_text fix_http_client_remove_agent_pattern) ?x" by code_simp
  have h5: "\<not> py_in (pattern_text fix_http_client_update_agent_pattern) ?x" by code_simp
  have h6: "\<not> py_in patch_agents_view_old_fields ?x" by code_simp
  have h7: "\<not> py_in patch_agents_view_old_disabled ?x" by code_simp
  have h8: "read_file patch_agents_view_path ?w = Inr ?x" by code_simp
  note t = not_found_does_not_raise[of ?x ?w]
  from t h1 h2 h3 h4 h5 have a: "fix_http_client_transform ?x = Inr ?x" by blast
  from t h6 h7 have b: "patch_agents_view_transform ?x =
       (?x, [''Could not find fields block'', ''Could not find disabled block''])" by simp
  from t h8 obtain w' where w: "patch_agents_view ?w = Inr w'"
      "stdout w' = stdout ?w @ snd (patch_agents_view_transform ?x)
                     @ [''Python patch AgentsView complete'']"
    by blast
  from w(2) b have "stdout w' = [''Could not find fields block'', ''Could not find disabled block'',
                          ''Python patch AgentsView complete'']" by simp
  with w(1) have c: "\<exists>w'. patch_agents_view ?w = Inr w'
          \<and> stdout w' = [''Could not find fields block'', ''Could not find disabled block'',
                          ''Python patch AgentsView complete'']" by blast
  show ?thesis using h1 h2 h3 h4 h5 h6 h7 a b c by blast
qed

text \<open>
  C8. The claim: the matchers of a rule are tried in order, the first that matches is
  applied and the later ones are not. No script has such a list of alternatives: the
  statements of a script are all executed, each on the text left by the one before. In
  \<^verbatim>\<open>fix_diane_client9.py\<close>, on a file where \<^verbatim>\<open>addAgent\<close> was appended behind the class, the
  cleanup matches and removes it, and the insertion at the Gallery marker is applied as well.
\<close>

theorem fix_diane_client9_applies_both_rules:
  "fix_diane_client9_cleanup
     (''class C {\<newline>'' @
      ''    // MARK: - Gallery\<newline>'' @
      ''}\<newline>'' @
      ''    func addAgent(agent: AgentConfig) async throws {\<newline>'' @
      ''        run()\<newline>'' @
      ''    }\<newline>'' @
      ''}\<newline>'') =
     Inr (''class C {\<newline>'' @
          ''    // MARK: - Gallery\<newline>'' @
          ''}\<newline>'' @
          ''}'')
   \<and> fix_diane_client9_transform
       (''class C {\<newline>'' @
        ''    // MARK: - Gallery\<newline>'' @
        ''}\<newline>'' @
        ''    func addAgent(agent: AgentConfig) async throws {\<newline>'' @
        ''        run()\<newline>'' @
        ''    }\<newline>'' @
        ''}\<newline>'') =
       Inr (''class C {\<newline>'' @
            fix_diane_client9_add_func @
            ''\<newline>'' @
            ''    // MARK: - Gallery\<newline>'' @
            ''}\<newline>'' @
            ''}'')"
  by code_simp

text \<open>
  C8, as amended. The statements of a script are applied in the order written, each to the
  text left by the one before, whether or not an earlier one matched. In
  \<^verbatim>\<open>fix_diane_client9.py\<close> the cleanup always returns a text, and the guarded insertion is
  then applied to that text: where the signature is absent from it and the marker present,
  the function is inserted.
\<close>

theorem statements_apply_in_sequence:
  "\<exists>y. fix_diane_client9_cleanup x = Inr y
      \<and> fix_diane_client9_transform x =
          Inr (if \<not> py_in fix_diane_client9_signature y
               then replace_scan (pattern_text fix_diane_client9_pattern)
                      (fix_diane_client9_add_func @ ''\<newline>'' @ pattern_text fix_diane_client9_pattern) y
               else y)
      \<and> (\<not> py_in fix_diane_client9_signature y \<and> py_in (pattern_text fix_diane_client9_pattern) y \<longrightarrow>
           (\<exists>z. fix_diane_client9_transform x = Inr z \<and> py_in fix_diane_client9_add_func z \<and> z \<noteq> y))"
proof -
  obtain y where y: "fix_diane_client9_cleanup x = Inr y"
    using fix_diane_client9_cleanup_total by blast
  let ?G = "pattern_text fix_diane_client9_pattern"
  let ?new = "fix_diane_client9_add_func @ ''\<newline>'' @ ?G"
  have t: "fix_diane_client9_transform x =
          Inr (if \<not> py_in fix_diane_client9_signature y then replace_scan ?G ?new y else y)"
    using y by (simp add: fix_diane_client9_transform_def bind_res_def fix_diane_client9_inject_eq)
  have ins: "\<exists>z. fix_diane_client9_transform x = Inr z \<and> py_in fix_diane_client9_add_func z \<and> z \<noteq> y"
    if a: "\<not> py_in fix_diane_client9_signature y \<and> py_in ?G y"
  proof -
    let ?z = "replace_scan ?G ?new y"
    have "py_in ?new ?z" using replace_scan_present[OF fix_diane_client9_pattern_nonempty] a by blast
    moreover have "py_in fix_diane_client9_add_func ?new" using py_in_self_append[of _ "[]"] by simp
    ultimately have add: "py_in fix_diane_client9_add_func ?z" using py_in_trans by blast
    then have "py_in fix_diane_client9_signature ?z"
      using fix_diane_client9_signature_in_add_func py_in_trans by blast
    then have "?z \<noteq> y" using a by auto
    then show ?thesis using t a add by simp
  qed
  show ?thesis using y t ins by blast
qed

theorem statements_apply_in_sequence_witness:
  "fix_diane_client9_cleanup ''    // MARK: - Gallery\<newline>'' = Inr ''    // MARK: - Gallery\<newline>''
   \<and> \<not> py_in fix_diane_client9_signature ''    // MARK: - Gallery\<newline>''
   \<and> py_in (pattern_text fix_diane_client9_pattern) ''    // MARK: - Gallery\<newline>''
   \<and> (\<exists>z. fix_diane_client9_transform ''    // MARK: - Gallery\<newline>'' = Inr z
          \<and> py_in fix_diane_client9_add_func z \<and> z \<noteq> ''    // MARK: - Gallery\<newline>'')"
proof -
  let ?x = "''    // MARK: - Gallery\<newline>''"
  have h0: "fix_diane_client9_cleanup ?x = Inr ?x" by code_simp
  have h1: "\<not> py_in fix_diane_client9_signature ?x" by code_simp
  have h2: "py_in (pattern_text fix_diane_client9_pattern) ?x" by code_simp
  obtain y where y: "fix_diane_client9_cleanup ?x = Inr y"
    and imp: "\<not> py_in fix_diane_client9_signature y \<and> py_in (pattern_text fix_diane_client9_pattern) y \<longrightarrow>
           (\<exists>z. fix_diane_client9_transform ?x = Inr z \<and> py_in fix_diane_client9_add_func z \<and> z \<noteq> y)"
    using statements_apply_in_sequence[of ?x] by blast
  from y h0 have "y = ?x" by (simp only: sum.inject)
  with imp h1 h2
  have a: "\<exists>z. fix_diane_client9_transform ?x = Inr z \<and> py_in fix_diane_client9_add_func z \<and> z \<noteq> ?x"
    by blast
  show ?thesis using h0 h1 h2 a by blast
qed

text \<open>
  C9. The claim: the transformation of each script that tests for the signature is
  idempotent. \<^verbatim>\<open>fix_diane_client9.py\<close> first runs a substitution, commented "Just remove the
  trailing addAgent that was appended outside the class", whose lazy \<^verbatim>\<open>.*?\<close> under
  \<^verbatim>\<open>re.DOTALL\<close> runs from the first \<^verbatim>\<open>addAgent\<close> to the end of any text that ends with a
  method's and a class's closing braces. On a class with the Gallery marker the first run
  inserts the function inside the class; the second run deletes it and all that follows.
\<close>

theorem fix_diane_client9_second_run_deletes:
  "fix_diane_client9_transform
     (''class C {\<newline>'' @
      ''    // MARK: - Gallery\<newline>'' @
      ''    func g() {\<newline>'' @
      ''    }\<newline>'' @
      ''}\<newline>'') =
   Inr (''class C {\<newline>'' @
        fix_diane_client9_add_func @
        ''\<newline>'' @
        ''    // MARK: - Gallery\<newline>'' @
        ''    func g() {\<newline>'' @
        ''    }\<newline>'' @
        ''}\<newline>'')
   \<and> fix_diane_client9_transform
       (''class C {\<newline>'' @
        fix_diane_client9_add_func @
        ''\<newline>'' @
        ''    // MARK: - Gallery\<newline>'' @
        ''    func g() {\<newline>'' @
        ''    }\<newline>'' @
        ''}\<newline>'') =
     Inr (''class C {\<newline>'' @ ''\<newline>'' @ ''}'')"
  by code_simp

text \<open>
  C10. \<^verbatim>\<open>fix_diane_client3.py\<close> cuts the text at its last \<^verbatim>\<open>}\<close> (or not at all when there is
  none) and appends its block, whatever the text holds: the result always ends with the
  block, is never the text that was read, and the block holds the \<^verbatim>\<open>addAgent\<close> function and
  ends with a closing brace on a line of its own.
\<close>

theorem fix_diane_client3_always_appends:
  "\<exists>t. fix_diane_client3_transform x = Inr (t @ fix_diane_client3_add_func)
      \<and> t @ fix_diane_client3_add_func \<noteq> x
      \<and> (if CHR ''}'' \<in> set x
          then \<exists>post. x = t @ ''}'' @ post \<and> CHR ''}'' \<notin> set post
          else t = x)
      \<and> py_in ''func addAgent(agent: AgentConfig)'' fix_diane_client3_add_func
      \<and> (\<exists>b. fix_diane_client3_add_func = b @ ''}\<newline>'')"
proof -
  have sig: "py_in ''func addAgent(agent: AgentConfig)'' fix_diane_client3_add_func" by code_simp
  have "fix_diane_client3_add_func = butlast (butlast fix_diane_client3_add_func) @ ''}\<newline>''"
    by code_simp
  then have blk: "\<exists>b. fix_diane_client3_add_func = b @ ''}\<newline>''" by blast
  have hd_blk: "hd fix_diane_client3_add_func = NLC" and ne_blk: "fix_diane_client3_add_func \<noteq> []"
    by code_simp+
  show ?thesis
  proof (cases "CHR ''}'' \<in> set x")
    case True
    then obtain t post where x: "x = t @ CHR ''}'' # post" and post: "CHR ''}'' \<notin> set post"
      using split_list_last by fastforce
    have "str_rfind ''}'' x = Some (length t)" unfolding x using post by (rule str_rfind_last)
    then have r: "fix_diane_client3_transform x = Inr (t @ fix_diane_client3_add_func)"
      by (simp add: fix_diane_client3_transform_def str_rsplit1_def bind_res_def x)
    have "t @ fix_diane_client3_add_func \<noteq> x"
    proof
      assume "t @ fix_diane_client3_add_func = x"
      then have "fix_diane_client3_add_func = CHR ''}'' # post" using x by simp
      then have "hd fix_diane_client3_add_func = CHR ''}''" by (metis list.sel(1))
      then show False using hd_blk by simp
    qed
    then show ?thesis using r x post True sig blk by auto
  next
    case False
    then have "str_rfind ''}'' x = None" by (rule str_rfind_absent)
    then have r: "fix_diane_client3_transform x = Inr (x @ fix_diane_client3_add_func)"
      by (simp add: fix_diane_client3_transform_def str_rsplit1_def bind_res_def)
    have "x @ fix_diane_client3_add_func \<noteq> x" using ne_blk by simp
    then show ?thesis using r False sig blk by auto
  qed
qed

theorem fix_diane_client3_always_appends_witness:
  "fix_diane_client3_transform (''class C {\<newline>}\<newline>'' @ fix_diane_client3_add_func) =
     Inr (''class C {\<newline>}\<newline>'' @ butlast (butlast fix_diane_client3_add_func)
          @ fix_diane_client3_add_func)
   \<and> fix_diane_client3_transform ''no brace'' = Inr (''no brace'' @ fix_diane_client3_add_func)"
proof -
  have nb: "CHR ''}'' \<notin> set ''no brace''" by simp
  obtain t where t: "fix_diane_client3_transform ''no brace'' = Inr (t @ fix_diane_client3_add_func)"
      "(if CHR ''}'' \<in> set ''no brace'' then \<exists>post. ''no brace'' = t @ ''}'' @ post \<and> CHR ''}'' \<notin> set post
        else t = ''no brace'')"
    using fix_diane_client3_always_appends[of "''no brace''"] by blast
  from t(2) nb have "t = ''no brace''" by simp
  with t(1) have a: "fix_diane_client3_transform ''no brace'' = Inr (''no brace'' @ fix_diane_client3_add_func)"
    by simp
  have b: "fix_diane_client3_transform (''class C {\<newline>}\<newline>'' @ fix_diane_client3_add_func) =
     Inr (''class C {\<newline>}\<newline>'' @ butlast (butlast fix_diane_client3_add_func)
          @ fix_diane_client3_add_func)"
    by code_simp
  show ?thesis using a b by simp
qed

end
